theory Spec2Isabelle
  imports Main
begin

section \<open>Model catalog: free-model filter and vision detection\<close>

text \<open>
  The upstream listing is a sequence of dictionaries. Every key that the backend reads
  with \<^verbatim>\<open>.get(key, default)\<close> is an optional field here: \<open>None\<close> is the absent
  key, and \<open>dict_get\<close> supplies the default as the Python call does.
\<close>

record pricing =
  prompt :: "string option"
  completion :: "string option"

record architecture =
  input_modalities :: "string list option"

record upstream_model =
  um_id :: string
  um_name :: string
  um_description :: "string option"
  um_context_length :: "nat option"
  um_pricing :: "pricing option"
  um_architecture :: "architecture option"

text \<open>The descriptor served by \<^verbatim>\<open>GET /models/\<close> (backend README, response example).\<close>

record model_descriptor =
  md_id :: string
  md_name :: string
  md_description :: "string option"
  md_context_length :: "nat option"
  supports_vision :: bool
  md_pricing :: "pricing option"

definition dict_get :: "'a option \<Rightarrow> 'a \<Rightarrow> 'a" where
  "dict_get field dflt = (case field of None \<Rightarrow> dflt | Some v \<Rightarrow> v)"

text \<open>The empty dictionary \<^verbatim>\<open>{}\<close> used as default for a missing sub-dictionary.\<close>

definition empty_pricing :: pricing where
  "empty_pricing = \<lparr>prompt = None, completion = None\<rparr>"

definition empty_architecture :: architecture where
  "empty_architecture = \<lparr>input_modalities = None\<rparr>"

text \<open>
  \<^verbatim>\<open>
  free_models = [
      model for model in all_models
      if model.get("pricing", {}).get("prompt", "1") == "0"
      and model.get("pricing", {}).get("completion", "1") == "0"
  ]
  \<close>
  This is the filter as the backend's README gives it (lines 300-304). The project
  README prints the filter twice more, without the test of the completion price; both
  are given below.
\<close>

definition free_models :: "upstream_model list \<Rightarrow> upstream_model list" where
  "free_models all_models =
     [model \<leftarrow> all_models.
        dict_get (prompt (dict_get (um_pricing model) empty_pricing)) ''1'' = ''0''
        \<and> dict_get (completion (dict_get (um_pricing model) empty_pricing)) ''1'' = ''0'']"

text \<open>
  \<^verbatim>\<open>
  def _check_vision_support(self, model: Dict[str, Any]) -> bool:
      arch = model.get("architecture", {})
      input_modalities = arch.get("input_modalities", [])
      return "image" in input_modalities
  \<close>
\<close>

definition check_vision_support :: "upstream_model \<Rightarrow> bool" where
  "check_vision_support model =
     (let arch = dict_get (um_architecture model) empty_architecture;
          modalities = dict_get (input_modalities arch) []
      in ''image'' \<in> set modalities)"

text \<open>
  The camera glyph U+1F4F7 in UTF-8, followed by one space: the prefix of the
  f-string \<^verbatim>\<open>f"<camera> {model['name']}"\<close>.
\<close>

definition visual_marker :: string where
  "visual_marker = [CHR 0xF0, CHR 0x9F, CHR 0x93, CHR 0xB7, CHR '' '']"

text \<open>
  \<^verbatim>\<open>
  supports_vision = "image" in model.get("architecture", {}).get("input_modalities", [])
  if supports_vision:
      model["name"] = f"<camera> {model['name']}"
  \<close>
  The remaining fields of the descriptor are copied from the upstream entry, as the
  documented response of \<^verbatim>\<open>GET /models/\<close> shows them. Every upstream entry has
  an identifier and a name.
\<close>

definition describe_model :: "upstream_model \<Rightarrow> model_descriptor" where
  "describe_model model =
     (let vision = check_vision_support model;
          model' = (if vision then model\<lparr>um_name := visual_marker @ um_name model\<rparr> else model)
      in \<lparr>md_id = um_id model', md_name = um_name model',
          md_description = um_description model',
          md_context_length = um_context_length model',
          supports_vision = vision, md_pricing = um_pricing model'\<rparr>)"

definition listFreeModels :: "upstream_model list \<Rightarrow> model_descriptor list" where
  "listFreeModels all_models = map describe_model (free_models all_models)"

subsection \<open>The excerpts of the project README\<close>

text \<open>
  Indexing a dictionary with a key it does not have raises \<^verbatim>\<open>KeyError\<close>, which
  ends the whole comprehension.
\<close>

datatype py_error = KeyError string

text \<open>
  Project README, lines 211-214:
  \<^verbatim>\<open>
  free_models = [m for m in all_models
                 if m["pricing"]["prompt"] == "0"]
  \<close>
\<close>

fun free_models_indexed :: "upstream_model list \<Rightarrow> py_error + upstream_model list" where
  "free_models_indexed [] = Inr []"
| "free_models_indexed (m # ms) =
     (case um_pricing m of
        None \<Rightarrow> Inl (KeyError ''pricing'')
      | Some p \<Rightarrow>
          (case prompt p of
             None \<Rightarrow> Inl (KeyError ''prompt'')
           | Some price \<Rightarrow>
               (case free_models_indexed ms of
                  Inl e \<Rightarrow> Inl e
                | Inr rest \<Rightarrow> Inr (if price = ''0'' then m # rest else rest))))"

text \<open>
  Project README, lines 644-647:
  \<^verbatim>\<open>
  free_models = [
      model for model in all_models
      if model.get("pricing", {}).get("prompt", "1") == "0"
  ]
  \<close>
\<close>

definition free_models_prompt_only :: "upstream_model list \<Rightarrow> upstream_model list" where
  "free_models_prompt_only all_models =
     [model \<leftarrow> all_models.
        dict_get (prompt (dict_get (um_pricing model) empty_pricing)) ''1'' = ''0'']"

text \<open>
  Project README, lines 221-223:
  \<^verbatim>\<open>
  supports_vision = "image" in model["architecture"]["input_modalities"]
  if supports_vision:
      model["name"] = f"<camera> {model['name']}"
  \<close>
\<close>

definition describe_model_indexed :: "upstream_model \<Rightarrow> py_error + model_descriptor" where
  "describe_model_indexed model =
     (case um_architecture model of
        None \<Rightarrow> Inl (KeyError ''architecture'')
      | Some arch \<Rightarrow>
          (case input_modalities arch of
             None \<Rightarrow> Inl (KeyError ''input_modalities'')
           | Some modalities \<Rightarrow>
               (let vision = ''image'' \<in> set modalities;
                    model' = (if vision then model\<lparr>um_name := visual_marker @ um_name model\<rparr>
                              else model)
                in Inr \<lparr>md_id = um_id model', md_name = um_name model',
                        md_description = um_description model',
                        md_context_length = um_context_length model',
                        supports_vision = vision, md_pricing = um_pricing model'\<rparr>)))"

text \<open>
  The specification's wording of the two conditions, for comparison with the code:
  the zero-cost marker, an entry both of whose declared prices equal it, and the
  declared input modalities of an entry.
\<close>

definition zero_cost_marker :: string where
  "zero_cost_marker = ''0''"

definition both_prices_zero :: "upstream_model \<Rightarrow> bool" where
  "both_prices_zero m =
     (case um_pricing m of
        None \<Rightarrow> False
      | Some p \<Rightarrow> prompt p = Some zero_cost_marker \<and> completion p = Some zero_cost_marker)"

definition declared_modalities :: "upstream_model \<Rightarrow> string list" where
  "declared_modalities m =
     (case um_architecture m of
        None \<Rightarrow> []
      | Some a \<Rightarrow> (case input_modalities a of None \<Rightarrow> [] | Some ms \<Rightarrow> ms))"

section \<open>Client-side data model (frontend/src/types/index.ts)\<close>

text \<open>
  Strings on the TypeScript side are sequences of code units below 256. A JavaScript
  \<^verbatim>\<open>Date\<close> is identified by the way it was constructed: \<^verbatim>\<open>new Date(s)\<close> from a
  server timestamp string, or \<^verbatim>\<open>new Date()\<close> from a reading of the clock in
  milliseconds.
\<close>

datatype date = DateOfString string | DateOfMillis nat

record message =
  m_id :: string
  role :: string
  content :: string
  timestamp :: date
  imageUrl :: "string option"

record chat_session =
  cs_id :: string
  title :: string
  modelId :: string
  messages :: "message list"
  createdAt :: date
  updatedAt :: date

text \<open>
  The content of a request message:
  \<^verbatim>\<open>string | Array<{ type: string; text?: string; image_url?: { url: string } }>\<close>.
\<close>

record content_part =
  part_type :: string
  part_text :: "string option"
  part_image_url :: "string option"

datatype message_content = Plain string | Parts "content_part list"

record wire_message =
  wm_role :: string
  wm_content :: message_content

record send_message_request =
  req_model :: string
  req_messages :: "wire_message list"
  session_id :: "string option"

record reply_message =
  reply_role :: string
  reply_content :: string

record choice =
  choice_message :: reply_message
  finish_reason :: string

record usage =
  prompt_tokens :: nat
  completion_tokens :: nat
  total_tokens :: nat

record send_message_response =
  resp_id :: string
  resp_model :: string
  choices :: "choice list"
  resp_usage :: "usage option"

section \<open>API boundary (frontend/src/services/api.ts)\<close>

text \<open>
  The JSON objects served by the backend, in the storage casing. A field that may be
  absent or \<^verbatim>\<open>null\<close> is an option.
\<close>

record server_message =
  sm_id :: string
  sm_role :: string
  sm_content :: string
  sm_timestamp :: string
  image_url :: "string option"

record server_session =
  ss_id :: string
  ss_title :: string
  model_id :: string
  ss_messages :: "server_message list option"
  created_at :: string
  updated_at :: string

text \<open>
  \<^verbatim>\<open>
  const transformMessage = (msg: any) => ({
    id: msg.id, role: msg.role, content: msg.content,
    timestamp: new Date(msg.timestamp), imageUrl: msg.image_url });
  \<close>
\<close>

definition transformMessage :: "server_message \<Rightarrow> message" where
  "transformMessage msg =
     \<lparr>m_id = sm_id msg, role = sm_role msg, content = sm_content msg,
      timestamp = DateOfString (sm_timestamp msg), imageUrl = image_url msg\<rparr>"

text \<open>
  \<^verbatim>\<open>
  const transformSession = (session: any): ChatSession => ({
    id: session.id, title: session.title, modelId: session.model_id,
    messages: session.messages ? session.messages.map(transformMessage) : [],
    createdAt: new Date(session.created_at), updatedAt: new Date(session.updated_at) });
  \<close>
  An array is truthy even when empty, so only the absent field takes the second branch.
\<close>

definition transformSession :: "server_session \<Rightarrow> chat_session" where
  "transformSession session =
     \<lparr>cs_id = ss_id session, title = ss_title session, modelId = model_id session,
      messages = (case ss_messages session of
                    Some msgs \<Rightarrow> map transformMessage msgs
                  | None \<Rightarrow> []),
      createdAt = DateOfString (created_at session),
      updatedAt = DateOfString (updated_at session)\<rparr>"

text \<open>
  The values of a JSON object from the server and of a client object, field by field.
  \<^verbatim>\<open>typeof\<close> tells a string from a \<^verbatim>\<open>Date\<close> object.
\<close>

datatype js_value = JString string | JDate date | JUndefined

definition js_typeof :: "js_value \<Rightarrow> string" where
  "js_typeof v =
     (case v of JString s \<Rightarrow> ''string'' | JDate d \<Rightarrow> ''object'' | JUndefined \<Rightarrow> ''undefined'')"

definition optional_string :: "string option \<Rightarrow> js_value" where
  "optional_string field = (case field of None \<Rightarrow> JUndefined | Some s \<Rightarrow> JString s)"

definition server_message_fields :: "server_message \<Rightarrow> (string \<times> js_value) list" where
  "server_message_fields msg =
     [(''id'', JString (sm_id msg)), (''role'', JString (sm_role msg)),
      (''content'', JString (sm_content msg)), (''timestamp'', JString (sm_timestamp msg)),
      (''image_url'', optional_string (image_url msg))]"

definition client_message_fields :: "message \<Rightarrow> (string \<times> js_value) list" where
  "client_message_fields m =
     [(''id'', JString (m_id m)), (''role'', JString (role m)),
      (''content'', JString (content m)), (''timestamp'', JDate (timestamp m)),
      (''imageUrl'', optional_string (imageUrl m))]"

definition server_session_fields :: "server_session \<Rightarrow> (string \<times> js_value) list" where
  "server_session_fields session =
     [(''id'', JString (ss_id session)), (''title'', JString (ss_title session)),
      (''model_id'', JString (model_id session)),
      (''created_at'', JString (created_at session)),
      (''updated_at'', JString (updated_at session))]"

definition client_session_fields :: "chat_session \<Rightarrow> (string \<times> js_value) list" where
  "client_session_fields session =
     [(''id'', JString (cs_id session)), (''title'', JString (title session)),
      (''modelId'', JString (modelId session)),
      (''createdAt'', JDate (createdAt session)),
      (''updatedAt'', JDate (updatedAt session))]"

text \<open>The renaming of the storage names to the client-facing names.\<close>

definition client_name :: "string \<Rightarrow> string" where
  "client_name k =
     (if k = ''image_url'' then ''imageUrl''
      else if k = ''model_id'' then ''modelId''
      else if k = ''created_at'' then ''createdAt''
      else if k = ''updated_at'' then ''updatedAt''
      else k)"

definition renamed :: "(string \<times> js_value) list \<Rightarrow> (string \<times> js_value) list" where
  "renamed kvs = map (\<lambda>kv. (client_name (fst kv), snd kv)) kvs"

definition timestamp_field :: "string \<Rightarrow> bool" where
  "timestamp_field k \<longleftrightarrow> k = ''timestamp'' \<or> k = ''createdAt'' \<or> k = ''updatedAt''"

definition without_timestamps :: "(string \<times> js_value) list \<Rightarrow> (string \<times> js_value) list" where
  "without_timestamps kvs = filter (\<lambda>kv. \<not> timestamp_field (fst kv)) kvs"

text \<open>
  The line of the sidebar under a session's title
  (\<^verbatim>\<open>{session.messages.length} messages\<close>) shows this count.
\<close>

definition sidebar_message_count :: "chat_session \<Rightarrow> nat" where
  "sidebar_message_count session = length (messages session)"

text \<open>
  What a call of the API client can throw: an HTTP error carrying
  \<^verbatim>\<open>err.response?.data?.detail\<close> when the backend sent one, a \<^verbatim>\<open>TypeError\<close>
  raised by the handler's own code, and a failed read of a file.
\<close>

datatype exn = AxiosError "string option" | TypeError | FileReadError

text \<open>
  The backend behind the HTTP client: one handler per endpoint the client calls, each
  taking the server's state to a response and a new state.
\<close>

record 'srv backend =
  post_sessions :: "string \<Rightarrow> string \<Rightarrow> 'srv \<Rightarrow> (exn + server_session) \<times> 'srv"
  post_chat :: "send_message_request \<Rightarrow> 'srv \<Rightarrow> (exn + send_message_response) \<times> 'srv"
  get_sessions :: "'srv \<Rightarrow> (exn + server_session list) \<times> 'srv"

text \<open>The requests the client has sent, in order, next to the server's state.\<close>

datatype http_request =
    POST_sessions string string
  | POST_chat send_message_request
  | GET_sessions

record 'srv network =
  server :: 'srv
  sent :: "http_request list"

text \<open>
  \<^verbatim>\<open>
  createSession: async (modelId, title?) => {
    const response = await api.post('/sessions/', { model_id: modelId, title: title || 'New Chat' });
    return transformSession(response.data); }
  \<close>
\<close>

definition createSession ::
  "'srv backend \<Rightarrow> string \<Rightarrow> string option \<Rightarrow> 'srv network
    \<Rightarrow> (exn + chat_session) \<times> 'srv network" where
  "createSession b mdl title_opt net =
     (let body_title = (case title_opt of
                          Some t \<Rightarrow> if t = [] then ''New Chat'' else t
                        | None \<Rightarrow> ''New Chat'');
          (r, srv') = post_sessions b mdl body_title (server net);
          net' = \<lparr>server = srv', sent = sent net @ [POST_sessions mdl body_title]\<rparr>
      in (case r of Inl e \<Rightarrow> Inl e | Inr data \<Rightarrow> Inr (transformSession data), net'))"

text \<open>
  \<^verbatim>\<open>
  sendMessage: async (request) => {
    const response = await api.post('/chat/', request); return response.data; }
  \<close>
\<close>

definition sendMessage ::
  "'srv backend \<Rightarrow> send_message_request \<Rightarrow> 'srv network
    \<Rightarrow> (exn + send_message_response) \<times> 'srv network" where
  "sendMessage b request net =
     (let (r, srv') = post_chat b request (server net)
      in (r, \<lparr>server = srv', sent = sent net @ [POST_chat request]\<rparr>))"

text \<open>
  \<^verbatim>\<open>
  getSessions: async () => {
    const response = await api.get('/sessions/'); return response.data.map(transformSession); }
  \<close>
\<close>

definition getSessions ::
  "'srv backend \<Rightarrow> 'srv network \<Rightarrow> (exn + chat_session list) \<times> 'srv network" where
  "getSessions b net =
     (let (r, srv') = get_sessions b (server net);
          net' = \<lparr>server = srv', sent = sent net @ [GET_sessions]\<rparr>
      in (case r of Inl e \<Rightarrow> Inl e | Inr data \<Rightarrow> Inr (map transformSession data), net'))"

section \<open>Message input (frontend/src/components/ChatInput.tsx)\<close>

text \<open>
  A file chosen by the user: its name and what reading it as a data URL gives
  (\<open>None\<close> when the read fails).
\<close>

datatype js_file = File (file_name: string) (data_url: "string option")

record chat_input =
  ci_message :: string
  ci_imageFile :: "js_file option"
  ci_imagePreview :: "string option"

text \<open>
  The code units below 256 that \<^verbatim>\<open>String.prototype.trim\<close> strips: tab, line feed,
  vertical tab, form feed, carriage return, space and no-break space.
\<close>

definition js_whitespace :: "char \<Rightarrow> bool" where
  "js_whitespace c \<longleftrightarrow>
     c \<in> set [CHR 0x09, CHR 0x0A, CHR 0x0B, CHR 0x0C, CHR 0x0D, CHR '' '', CHR 0xA0]"

definition trim :: "string \<Rightarrow> string" where
  "trim s = rev (dropWhile js_whitespace (rev (dropWhile js_whitespace s)))"

text \<open>
  \<^verbatim>\<open>
  const handleSubmit = (e) => {
    e.preventDefault();
    if (!message.trim() && !imageFile) return;
    onSendMessage(message, imageFile || undefined);
    setMessage(''); setImageFile(null); setImagePreview(null); };
  \<close>
  The first component is the call of \<^verbatim>\<open>onSendMessage\<close>, when there is one.
\<close>

definition handleSubmit :: "chat_input \<Rightarrow> (string \<times> js_file option) option \<times> chat_input" where
  "handleSubmit ci =
     (if trim (ci_message ci) = [] \<and> ci_imageFile ci = None then (None, ci)
      else (Some (ci_message ci, ci_imageFile ci),
            ci\<lparr>ci_message := [], ci_imageFile := None, ci_imagePreview := None\<rparr>))"

text \<open>
  The submit button:
  \<^verbatim>\<open>disabled={disabled || (!message.trim() && !imageFile)}\<close>.
\<close>

definition submit_disabled :: "bool \<Rightarrow> chat_input \<Rightarrow> bool" where
  "submit_disabled disabled ci \<longleftrightarrow>
     disabled \<or> (trim (ci_message ci) = [] \<and> ci_imageFile ci = None)"

section \<open>The chat handler (App.tsx)\<close>

record app_state =
  models :: "model_descriptor list"
  selectedModel :: string
  sessions :: "chat_session list"
  currentSession :: "chat_session option"
  isLoading :: bool
  error :: "string option"

text \<open>
  The readings of the clock during one run of the handler, in program order:
  \<^verbatim>\<open>Date.now()\<close> and \<^verbatim>\<open>new Date()\<close> for the user's message, the same two for
  the assistant's message, and \<^verbatim>\<open>new Date()\<close> for the session's \<^verbatim>\<open>updatedAt\<close>.
\<close>

record clock =
  now_user_id :: nat
  now_user_ts :: nat
  now_reply_id :: nat
  now_reply_ts :: nat
  now_updated :: nat

text \<open>Decimal digits of a number: \<^verbatim>\<open>n.toString()\<close> and \<^verbatim>\<open>`${n}`\<close>.\<close>

fun show_nat :: "nat \<Rightarrow> string" where
  "show_nat n =
     (if n < 10 then [''0123456789'' ! n]
      else show_nat (n div 10) @ [''0123456789'' ! (n mod 10)])"

declare show_nat.simps [simp del]

text \<open>
  \<^verbatim>\<open>
  const fileToBase64 = (file) => new Promise((resolve, reject) => {
    const reader = new FileReader();
    reader.onloadend = () => resolve(reader.result as string);
    reader.onerror = reject;
    reader.readAsDataURL(file); });
  \<close>
\<close>

definition fileToBase64 :: "js_file \<Rightarrow> exn + string" where
  "fileToBase64 f = (case data_url f of None \<Rightarrow> Inl FileReadError | Some url \<Rightarrow> Inr url)"

text \<open>
  \<^verbatim>\<open>
  const loadSessions = async () => {
    try { const sessionsData = await apiService.getSessions(); setSessions(sessionsData); }
    catch (err) { console.error('Error loading sessions:', err); } };
  \<close>
\<close>

definition loadSessions ::
  "'srv backend \<Rightarrow> app_state \<Rightarrow> 'srv network \<Rightarrow> app_state \<times> 'srv network" where
  "loadSessions b st net =
     (let (r, net') = getSessions b net
      in (case r of Inr sessionsData \<Rightarrow> st\<lparr>sessions := sessionsData\<rparr> | Inl err \<Rightarrow> st, net'))"

text \<open>
  \<^verbatim>\<open>
  const handleNewChat = async () => {
    if (!selectedModel) { setError('Please select a model first'); return; }
    try {
      setError(null);
      const newSession = await apiService.createSession(selectedModel, `Chat ${sessions.length + 1}`);
      setSessions([newSession, ...sessions]);
      setCurrentSession(newSession);
      return newSession;
    } catch (err) { setError('Failed to create new chat session'); return null; } };
  \<close>
  The first component is the returned session (\<open>None\<close> for \<^verbatim>\<open>undefined\<close> and
  \<^verbatim>\<open>null\<close>).
\<close>

definition handleNewChat ::
  "'srv backend \<Rightarrow> app_state \<Rightarrow> 'srv network
    \<Rightarrow> chat_session option \<times> app_state \<times> 'srv network" where
  "handleNewChat b st net =
     (if selectedModel st = [] then (None, st\<lparr>error := Some ''Please select a model first''\<rparr>, net)
      else
        (let st1 = st\<lparr>error := None\<rparr>;
             (r, net') = createSession b (selectedModel st)
                           (Some (''Chat '' @ show_nat (length (sessions st) + 1))) net
         in (case r of
               Inr newSession \<Rightarrow>
                 (Some newSession,
                  st1\<lparr>sessions := newSession # sessions st, currentSession := Some newSession\<rparr>,
                  net')
             | Inl err \<Rightarrow>
                 (None, st1\<lparr>error := Some ''Failed to create new chat session''\<rparr>, net'))))"

text \<open>
  The message shown by the handler's \<^verbatim>\<open>catch\<close>:
  \<^verbatim>\<open>err.response?.data?.detail || 'Failed to send message. Please try again.'\<close>.
\<close>

definition send_error_text :: "exn \<Rightarrow> string" where
  "send_error_text err =
     (case err of
        AxiosError (Some detail) \<Rightarrow>
          if detail = [] then ''Failed to send message. Please try again.'' else detail
      | _ \<Rightarrow> ''Failed to send message. Please try again.'')"

text \<open>
  \<^verbatim>\<open>
  const handleSendMessage = async (content: string, imageFile?: File) => {
    let session = currentSession;
    if (!session) {
      session = await handleNewChat();
      if (!session) { setError('Failed to create chat session'); return; }
    }
    const userMessage = { id: Date.now().toString(), role: 'user', content, timestamp: new Date() };
    if (imageFile) { const base64 = await fileToBase64(imageFile); userMessage.imageUrl = base64; }
    const updatedSession = { ...session, messages: [...session.messages, userMessage] };
    setCurrentSession(updatedSession);
    setIsLoading(true); setError(null);
    try {
      let messageContent = content;
      if (imageFile) {
        const base64 = await fileToBase64(imageFile);
        messageContent = [ { type: 'text', text: content },
                           { type: 'image_url', image_url: { url: base64 } } ];
      }
      const response = await apiService.sendMessage({
        model: selectedModel,
        messages: [ ...session.messages.map((msg) => ({ role: msg.role, content: msg.content })),
                    { role: 'user', content: messageContent } ],
        session_id: session.id });
      const assistantMessage = { id: (Date.now() + 1).toString(), role: 'assistant',
        content: response.choices[0].message.content, timestamp: new Date() };
      const finalSession = { ...updatedSession,
        messages: [...updatedSession.messages, assistantMessage], updatedAt: new Date() };
      setCurrentSession(finalSession);
      await loadSessions();
    } catch (err) {
      setError(err.response?.data?.detail || 'Failed to send message. Please try again.');
    } finally { setIsLoading(false); } };
  \<close>
  A failed read of the image before the \<^verbatim>\<open>try\<close> rejects the handler's promise: the
  run stops with the state reached so far. The same file is read again inside the
  \<^verbatim>\<open>try\<close>, with the same result. Reading \<^verbatim>\<open>response.choices[0].message\<close> of an
  empty array throws a \<^verbatim>\<open>TypeError\<close>, which the \<^verbatim>\<open>catch\<close> receives.
\<close>

definition handleSendMessage ::
  "'srv backend \<Rightarrow> clock \<Rightarrow> string \<Rightarrow> js_file option \<Rightarrow> app_state \<Rightarrow> 'srv network
    \<Rightarrow> app_state \<times> 'srv network" where
  "handleSendMessage b clk new_content imageFile st net =
     (let (resolved, st0, net0) =
            (case currentSession st of
               Some s \<Rightarrow> (Some s, st, net)
             | None \<Rightarrow> handleNewChat b st net)
      in case resolved of
           None \<Rightarrow> (st0\<lparr>error := Some ''Failed to create chat session''\<rparr>, net0)
         | Some session \<Rightarrow>
             (case (case imageFile of
                      None \<Rightarrow> Inr None
                    | Some f \<Rightarrow> (case fileToBase64 f of Inl e \<Rightarrow> Inl e | Inr url \<Rightarrow> Inr (Some url))) of
                Inl e \<Rightarrow> (st0, net0)
              | Inr base64 \<Rightarrow>
                  (let userMessage =
                         \<lparr>m_id = show_nat (now_user_id clk), role = ''user'',
                          content = new_content, timestamp = DateOfMillis (now_user_ts clk),
                          imageUrl = base64\<rparr>;
                       updatedSession = session\<lparr>messages := messages session @ [userMessage]\<rparr>;
                       st1 = st0\<lparr>currentSession := Some updatedSession,
                                isLoading := True, error := None\<rparr>;
                       messageContent =
                         (case base64 of
                            None \<Rightarrow> Plain new_content
                          | Some url \<Rightarrow>
                              Parts [\<lparr>part_type = ''text'', part_text = Some new_content,
                                      part_image_url = None\<rparr>,
                                     \<lparr>part_type = ''image_url'', part_text = None,
                                      part_image_url = Some url\<rparr>]);
                       request =
                         \<lparr>req_model = selectedModel st,
                          req_messages =
                            map (\<lambda>msg. \<lparr>wm_role = role msg, wm_content = Plain (content msg)\<rparr>)
                              (messages session)
                            @ [\<lparr>wm_role = ''user'', wm_content = messageContent\<rparr>],
                          session_id = Some (cs_id session)\<rparr>;
                       (r, net1) = sendMessage b request net0
                   in (case r of
                         Inl err \<Rightarrow>
                           (st1\<lparr>error := Some (send_error_text err), isLoading := False\<rparr>, net1)
                       | Inr response \<Rightarrow>
                           (case choices response of
                              [] \<Rightarrow>
                                (st1\<lparr>error := Some (send_error_text TypeError),
                                     isLoading := False\<rparr>, net1)
                            | first_choice # _ \<Rightarrow>
                                (let assistantMessage =
                                       \<lparr>m_id = show_nat (now_reply_id clk + 1),
                                        role = ''assistant'',
                                        content = reply_content (choice_message first_choice),
                                        timestamp = DateOfMillis (now_reply_ts clk),
                                        imageUrl = None\<rparr>;
                                     finalSession =
                                       updatedSession
                                         \<lparr>messages := messages updatedSession @ [assistantMessage],
                                          updatedAt := DateOfMillis (now_updated clk)\<rparr>;
                                     st2 = st1\<lparr>currentSession := Some finalSession\<rparr>;
                                     (st3, net2) = loadSessions b st2 net1
                                 in (st3\<lparr>isLoading := False\<rparr>, net2)))))))"

text \<open>The bodies of the chat requests among the requests sent.\<close>

fun chat_requests :: "http_request list \<Rightarrow> send_message_request list" where
  "chat_requests [] = []"
| "chat_requests (POST_chat request # rs) = request # chat_requests rs"
| "chat_requests (_ # rs) = chat_requests rs"

text \<open>
  \<^verbatim>\<open>
  const currentModelSupportsImages =
    models.find((m) => m.id === selectedModel)?.supports_vision || false;
  \<close>
\<close>

definition currentModelSupportsImages :: "app_state \<Rightarrow> bool" where
  "currentModelSupportsImages st =
     (case find (\<lambda>m. md_id m = selectedModel st) (models st) of
        Some m \<Rightarrow> supports_vision m
      | None \<Rightarrow> False)"

section \<open>Conversation store (backend)\<close>

text \<open>
  The two tables, as the backend README declares them
  (\<^verbatim>\<open>class ChatSession(Base)\<close>, \<^verbatim>\<open>class Message(Base)\<close>): string identifiers,
  a foreign key from a message to its session, timestamps as readings of the server's
  clock. The relationship \<^verbatim>\<open>messages\<close> of a session is declared with
  \<^verbatim>\<open>cascade="all, delete-orphan"\<close> and the foreign key with
  \<^verbatim>\<open>ondelete="CASCADE"\<close>. The columns \<^verbatim>\<open>session_id\<close>, \<^verbatim>\<open>image_url\<close> and
  \<^verbatim>\<open>extra_metadata\<close> may be null.
\<close>

record db_session =
  ses_id :: string
  ses_title :: string
  ses_model_id :: string
  ses_created_at :: nat
  ses_updated_at :: nat

record db_message =
  msg_id :: string
  msg_session_id :: "string option"
  msg_role :: string
  msg_content :: string
  msg_image_url :: "string option"
  msg_timestamp :: nat
  extra_metadata :: "(string \<times> string) list option"

text \<open>
  The store: both tables in insertion order, and the counter from which identifiers are
  generated.
\<close>

record store =
  chat_sessions :: "db_session list"
  stored_messages :: "db_message list"
  next_id :: nat

definition empty_store :: store where
  "empty_store = \<lparr>chat_sessions = [], stored_messages = [], next_id = 0\<rparr>"

datatype failure = NotFound | UpstreamUnavailable | UpstreamRejected | ValidationFailure

definition session_exists :: "string \<Rightarrow> store \<Rightarrow> bool" where
  "session_exists sid st \<longleftrightarrow> sid \<in> set (map ses_id (chat_sessions st))"

text \<open>
  Modelled from the spec: the service functions of the store
  (\<^verbatim>\<open>app/services/session_service.py\<close>) are not among the sources. Section 4.2:
  \<^verbatim>\<open>createSession(modelId, title?)\<close> generates the identity, stores the title (a
  default label if absent) and stamps both timestamps equal.
\<close>

definition store_createSession ::
  "string \<Rightarrow> string option \<Rightarrow> nat \<Rightarrow> store \<Rightarrow> db_session \<times> store" where
  "store_createSession mdl title_opt now st =
     (let s = \<lparr>ses_id = show_nat (next_id st),
                ses_title = (case title_opt of Some t \<Rightarrow> t | None \<Rightarrow> ''New Chat''),
                ses_model_id = mdl, ses_created_at = now, ses_updated_at = now\<rparr>
      in (s, st\<lparr>chat_sessions := chat_sessions st @ [s], next_id := next_id st + 1\<rparr>))"

text \<open>
  Modelled from the spec: \<^verbatim>\<open>getSession(id)\<close> gives the session with its ordered
  messages, or fails with \<open>NotFound\<close>. The messages of a session are an ordered
  collection, retrieved in the order in which they were appended.
\<close>

definition store_getSession :: "string \<Rightarrow> store \<Rightarrow> failure + db_session \<times> db_message list" where
  "store_getSession sid st =
     (case find (\<lambda>s. ses_id s = sid) (chat_sessions st) of
        None \<Rightarrow> Inl NotFound
      | Some s \<Rightarrow> Inr (s, filter (\<lambda>m. msg_session_id m = Some sid) (stored_messages st)))"

text \<open>
  Modelled from the spec: \<^verbatim>\<open>listSessions()\<close> gives the sessions, the most recently
  updated first.
\<close>

definition store_listSessions :: "store \<Rightarrow> db_session list" where
  "store_listSessions st = sort_key (\<lambda>s. - int (ses_updated_at s)) (chat_sessions st)"

text \<open>
  Modelled from the spec: \<^verbatim>\<open>updateTitle(id, newTitle)\<close> fails with \<open>NotFound\<close> if
  the session is absent, and bumps the last-updated timestamp.
\<close>

definition store_updateTitle :: "string \<Rightarrow> string \<Rightarrow> nat \<Rightarrow> store \<Rightarrow> failure + db_session \<times> store" where
  "store_updateTitle sid new_title now st =
     (case find (\<lambda>s. ses_id s = sid) (chat_sessions st) of
        None \<Rightarrow> Inl NotFound
      | Some s \<Rightarrow>
          (let s' = s\<lparr>ses_title := new_title, ses_updated_at := now\<rparr>
           in Inr (s', st\<lparr>chat_sessions :=
                             map (\<lambda>x. if ses_id x = sid then s' else x) (chat_sessions st)\<rparr>)))"

text \<open>
  Modelled from the spec: \<^verbatim>\<open>deleteSession(id)\<close> fails with \<open>NotFound\<close> if the
  session is absent; otherwise it deletes all messages of the session and then the
  session, as one step.
\<close>

definition store_deleteSession :: "string \<Rightarrow> store \<Rightarrow> failure + store" where
  "store_deleteSession sid st =
     (if session_exists sid st
      then Inr (st\<lparr>stored_messages := filter (\<lambda>m. msg_session_id m \<noteq> Some sid) (stored_messages st),
                   chat_sessions := filter (\<lambda>s. ses_id s \<noteq> sid) (chat_sessions st)\<rparr>)
      else Inl NotFound)"

text \<open>
  Modelled from the spec:
  \<^verbatim>\<open>appendMessage(sessionId, role, content, imageRef?, metadata?)\<close> fails with
  \<open>NotFound\<close> if the session does not exist; otherwise it adds the message at the end
  and bumps the session's last-updated timestamp in the same step.
\<close>

definition store_appendMessage ::
  "string \<Rightarrow> string \<Rightarrow> string \<Rightarrow> string option \<Rightarrow> (string \<times> string) list option \<Rightarrow> nat \<Rightarrow> store
    \<Rightarrow> failure + db_message \<times> store" where
  "store_appendMessage sid r c image_ref metadata now st =
     (if session_exists sid st
      then (let m = \<lparr>msg_id = show_nat (next_id st), msg_session_id = Some sid, msg_role = r,
                      msg_content = c, msg_image_url = image_ref, msg_timestamp = now,
                      extra_metadata = metadata\<rparr>
            in Inr (m, st\<lparr>stored_messages := stored_messages st @ [m],
                           chat_sessions :=
                             map (\<lambda>x. if ses_id x = sid then x\<lparr>ses_updated_at := now\<rparr> else x)
                               (chat_sessions st),
                           next_id := next_id st + 1\<rparr>))
      else Inl NotFound)"

text \<open>
  The calls that change the store, and the state they leave: a call that fails leaves
  the store as it was. Every state of the store is reached from the empty one by a
  sequence of calls.
\<close>

datatype store_call =
    CreateSession string "string option" nat
  | UpdateTitle string string nat
  | DeleteSession string
  | AppendMessage string string string "string option" "(string \<times> string) list option" nat

fun perform :: "store \<Rightarrow> store_call \<Rightarrow> store" where
  "perform st (CreateSession mdl title_opt now) = snd (store_createSession mdl title_opt now st)"
| "perform st (UpdateTitle sid new_title now) =
     (case store_updateTitle sid new_title now st of Inl e \<Rightarrow> st | Inr (s, st') \<Rightarrow> st')"
| "perform st (DeleteSession sid) =
     (case store_deleteSession sid st of Inl e \<Rightarrow> st | Inr st' \<Rightarrow> st')"
| "perform st (AppendMessage sid r c image_ref metadata now) =
     (case store_appendMessage sid r c image_ref metadata now st of
        Inl e \<Rightarrow> st | Inr (m, st') \<Rightarrow> st')"

definition perform_all :: "store \<Rightarrow> store_call list \<Rightarrow> store" where
  "perform_all st calls = foldl perform st calls"

section \<open>Chat orchestration and HTTP endpoints (backend)\<close>

text \<open>
  The external capability "create completion": it takes the model identifier and the
  assembled messages, and gives the choice list and usage, or fails.
\<close>

type_synonym upstream = "string \<Rightarrow> wire_message list \<Rightarrow> failure + send_message_response"

record completion_result =
  reply_text :: string
  model_used :: string
  token_usage :: "usage option"

definition user_turn :: "string \<Rightarrow> string option \<Rightarrow> wire_message" where
  "user_turn c img =
     \<lparr>wm_role = ''user'',
      wm_content =
        (case img of
           None \<Rightarrow> Plain c
         | Some url \<Rightarrow>
             Parts [\<lparr>part_type = ''text'', part_text = Some c, part_image_url = None\<rparr>,
                    \<lparr>part_type = ''image_url'', part_text = None, part_image_url = Some url\<rparr>])\<rparr>"

definition persist :: "string option \<Rightarrow> string \<Rightarrow> string \<Rightarrow> string option \<Rightarrow> nat \<Rightarrow> store \<Rightarrow> store" where
  "persist sessionId r c img now st =
     (case sessionId of
        None \<Rightarrow> st
      | Some sid \<Rightarrow>
          (case store_appendMessage sid r c img None now st of
             Inl e \<Rightarrow> st
           | Inr (m, st') \<Rightarrow> st'))"

text \<open>
  Modelled from the spec: the chat route (\<^verbatim>\<open>app/routes/chat.py\<close>) is not among the
  sources. Section 4.3: resolve the session (\<open>NotFound\<close> if a supplied identifier is
  absent; no persistence without an identifier); assemble the prior messages as plain
  text followed by the new user turn; invoke the upstream capability; persist the user
  turn and then the assistant's reply when a session was resolved; respond. The user
  turn is persisted before the upstream call, so that it remains when the call fails;
  an empty choice list is \<open>UpstreamRejected\<close>.
\<close>

definition sendTurn ::
  "upstream \<Rightarrow> string \<Rightarrow> wire_message list \<Rightarrow> string option \<Rightarrow> string \<Rightarrow> string option \<Rightarrow> nat
    \<Rightarrow> store \<Rightarrow> (failure + completion_result) \<times> store" where
  "sendTurn up mdl priorMessages sessionId newUserContent newUserImage now st =
     (case (case sessionId of
              None \<Rightarrow> Inr priorMessages
            | Some sid \<Rightarrow>
                (case store_getSession sid st of
                   Inl e \<Rightarrow> Inl e
                 | Inr (s, msgs) \<Rightarrow>
                     Inr (map (\<lambda>m. \<lparr>wm_role = msg_role m, wm_content = Plain (msg_content m)\<rparr>)
                            msgs))) of
        Inl e \<Rightarrow> (Inl e, st)
      | Inr history \<Rightarrow>
          (let outgoing = history @ [user_turn newUserContent newUserImage];
               st1 = persist sessionId ''user'' newUserContent newUserImage now st
           in (case up mdl outgoing of
                 Inl e \<Rightarrow> (Inl e, st1)
               | Inr response \<Rightarrow>
                   (case choices response of
                      [] \<Rightarrow> (Inl UpstreamRejected, st1)
                    | first_choice # _ \<Rightarrow>
                        (let answer = reply_content (choice_message first_choice);
                             st2 = persist sessionId ''assistant'' answer None now st1
                         in (Inr \<lparr>reply_text = answer, model_used = resp_model response,
                                  token_usage = resp_usage response\<rparr>, st2))))))"

text \<open>
  The message sequence that \<open>sendTurn\<close> hands to the upstream capability for a turn,
  when the session resolves: its second step, by itself.
\<close>

definition assembled_messages ::
  "wire_message list \<Rightarrow> string option \<Rightarrow> string \<Rightarrow> string option \<Rightarrow> store
    \<Rightarrow> failure + wire_message list" where
  "assembled_messages priorMessages sessionId newUserContent newUserImage st =
     (case sessionId of
        None \<Rightarrow> Inr (priorMessages @ [user_turn newUserContent newUserImage])
      | Some sid \<Rightarrow>
          (case store_getSession sid st of
             Inl e \<Rightarrow> Inl e
           | Inr (s, msgs) \<Rightarrow>
               Inr (map (\<lambda>m. \<lparr>wm_role = msg_role m, wm_content = Plain (msg_content m)\<rparr>) msgs
                    @ [user_turn newUserContent newUserImage])))"

text \<open>
  Modelled from the spec: the HTTP routes are not among the sources. Section 6 gives the
  request and response shapes; the storage fields keep their names in the JSON. The
  text of an error detail, the identifier of a response and its finish reason are not
  fixed by the specification.
\<close>

record server_state =
  srv_store :: store
  srv_clock :: nat

definition message_json :: "db_message \<Rightarrow> server_message" where
  "message_json m =
     \<lparr>sm_id = msg_id m, sm_role = msg_role m, sm_content = msg_content m,
      sm_timestamp = show_nat (msg_timestamp m), image_url = msg_image_url m\<rparr>"

definition session_json :: "store \<Rightarrow> db_session \<Rightarrow> server_session" where
  "session_json st s =
     \<lparr>ss_id = ses_id s, ss_title = ses_title s, model_id = ses_model_id s,
      ss_messages =
        Some (map message_json (filter (\<lambda>m. msg_session_id m = Some (ses_id s))
                                   (stored_messages st))),
      created_at = show_nat (ses_created_at s), updated_at = show_nat (ses_updated_at s)\<rparr>"

definition http_error :: "failure \<Rightarrow> exn" where
  "http_error f =
     AxiosError (Some (case f of
                         NotFound \<Rightarrow> ''Session not found''
                       | UpstreamUnavailable \<Rightarrow> ''Chat completion failed: upstream unavailable''
                       | UpstreamRejected \<Rightarrow> ''Chat completion failed: upstream rejected''
                       | ValidationFailure \<Rightarrow> ''Invalid request''))"

definition sessions_post :: "string \<Rightarrow> string \<Rightarrow> server_state \<Rightarrow> (exn + server_session) \<times> server_state" where
  "sessions_post mdl new_title srv =
     (let (s, st') = store_createSession mdl (Some new_title) (srv_clock srv) (srv_store srv)
      in (Inr (session_json st' s), \<lparr>srv_store = st', srv_clock = srv_clock srv + 1\<rparr>))"

definition sessions_get :: "server_state \<Rightarrow> (exn + server_session list) \<times> server_state" where
  "sessions_get srv =
     (Inr (map (session_json (srv_store srv)) (store_listSessions (srv_store srv))), srv)"

definition turn_text :: "message_content \<Rightarrow> string" where
  "turn_text c =
     (case c of
        Plain s \<Rightarrow> s
      | Parts ps \<Rightarrow> (case List.map_filter part_text ps of [] \<Rightarrow> [] | t # _ \<Rightarrow> t))"

definition turn_image :: "message_content \<Rightarrow> string option" where
  "turn_image c =
     (case c of
        Plain s \<Rightarrow> None
      | Parts ps \<Rightarrow> (case List.map_filter part_image_url ps of [] \<Rightarrow> None | u # _ \<Rightarrow> Some u))"

definition chat_post ::
  "upstream \<Rightarrow> send_message_request \<Rightarrow> server_state
    \<Rightarrow> (exn + send_message_response) \<times> server_state" where
  "chat_post up request srv =
     (if req_messages request = [] then (Inl (http_error ValidationFailure), srv)
      else
        (let turn = last (req_messages request);
             (r, st') = sendTurn up (req_model request) (butlast (req_messages request))
                          (session_id request) (turn_text (wm_content turn))
                          (turn_image (wm_content turn)) (srv_clock srv) (srv_store srv);
             srv' = \<lparr>srv_store = st', srv_clock = srv_clock srv + 1\<rparr>
         in (case r of
               Inl f \<Rightarrow> (Inl (http_error f), srv')
             | Inr result \<Rightarrow>
                 (Inr \<lparr>resp_id = show_nat (srv_clock srv), resp_model = model_used result,
                       choices = [\<lparr>choice_message =
                                     \<lparr>reply_role = ''assistant'',
                                      reply_content = reply_text result\<rparr>,
                                   finish_reason = ''stop''\<rparr>],
                       resp_usage = token_usage result\<rparr>, srv'))))"

definition orchestration_backend :: "upstream \<Rightarrow> server_state backend" where
  "orchestration_backend up =
     \<lparr>post_sessions = sessions_post, post_chat = chat_post up, get_sessions = sessions_get\<rparr>"

section \<open>Vocabulary for the properties of the store\<close>

text \<open>
  What was appended to a session by a sequence of calls, in the order of the calls, and
  the fields of a stored message that an append fixes.
\<close>

fun appends_on :: "string \<Rightarrow> store_call list
    \<Rightarrow> (string \<times> string \<times> string option \<times> (string \<times> string) list option \<times> nat) list" where
  "appends_on sid [] = []"
| "appends_on sid (AppendMessage s r c img md now # calls) =
     (if s = sid then (r, c, img, md, now) # appends_on sid calls else appends_on sid calls)"
| "appends_on sid (_ # calls) = appends_on sid calls"

definition message_fields ::
  "db_message \<Rightarrow> string \<times> string \<times> string option \<times> (string \<times> string) list option \<times> nat" where
  "message_fields m =
     (msg_role m, msg_content m, msg_image_url m, extra_metadata m, msg_timestamp m)"

definition session_messages :: "string \<Rightarrow> store \<Rightarrow> db_message list" where
  "session_messages sid st = filter (\<lambda>m. msg_session_id m = Some sid) (stored_messages st)"

text \<open>
  Invariants of the store: every session identifier was generated from the counter; no
  message refers to a session that does not exist; an identifier is retired when it was
  generated and its session is gone.
\<close>

definition ids_generated :: "store \<Rightarrow> bool" where
  "ids_generated st \<longleftrightarrow> (\<forall>x. session_exists x st \<longrightarrow> (\<exists>k < next_id st. x = show_nat k))"

definition no_orphans :: "store \<Rightarrow> bool" where
  "no_orphans st \<longleftrightarrow>
     (\<forall>m \<in> set (stored_messages st).
        \<exists>sid. msg_session_id m = Some sid \<and> session_exists sid st)"

definition retired :: "string \<Rightarrow> store \<Rightarrow> bool" where
  "retired sid st \<longleftrightarrow> \<not> session_exists sid st \<and> (\<exists>k < next_id st. sid = show_nat k)"

section \<open>Sample inputs\<close>

text \<open>A catalog of two entries: one free and vision-capable, one with a paid prompt.\<close>

definition sample_catalog :: "upstream_model list" where
  "sample_catalog =
     [\<lparr>um_id = ''qwen/qwen-2-vl-7b-instruct:free'', um_name = ''Qwen 2 VL 7B Instruct (free)'',
       um_description = None, um_context_length = Some 32768,
       um_pricing = Some \<lparr>prompt = Some ''0'', completion = Some ''0''\<rparr>,
       um_architecture = Some \<lparr>input_modalities = Some [''text'', ''image'']\<rparr>\<rparr>,
      \<lparr>um_id = ''vendor/paid'', um_name = ''Paid'',
       um_description = None, um_context_length = None,
       um_pricing = Some \<lparr>prompt = Some ''0.001'', completion = Some ''0''\<rparr>,
       um_architecture = None\<rparr>]"

text \<open>An upstream gateway that answers every completion with one choice.\<close>

definition one_choice_upstream :: upstream where
  "one_choice_upstream mdl msgs =
     Inr \<lparr>resp_id = ''gen-1'', resp_model = mdl,
          choices = [\<lparr>choice_message = \<lparr>reply_role = ''assistant'', reply_content = ''hello''\<rparr>,
                      finish_reason = ''stop''\<rparr>],
          resp_usage = None\<rparr>"

text \<open>The application right after start, with a model selected and no session.\<close>

definition initial_app :: app_state where
  "initial_app =
     \<lparr>models = [], selectedModel = ''m1'', sessions = [], currentSession = None,
      isLoading = False, error = None\<rparr>"

definition initial_network :: "server_state network" where
  "initial_network = \<lparr>server = \<lparr>srv_store = empty_store, srv_clock = 0\<rparr>, sent = []\<rparr>"

definition sample_clock :: clock where
  "sample_clock =
     \<lparr>now_user_id = 1000, now_user_ts = 1000, now_reply_id = 2000, now_reply_ts = 2000,
      now_updated = 2000\<rparr>"

definition sample_image :: js_file where
  "sample_image = File ''cat.png'' (Some ''data:image/png;base64,AAAA'')"

text \<open>The input with an image chosen and nothing typed.\<close>

definition image_only_input :: chat_input where
  "image_only_input =
     \<lparr>ci_message = [], ci_imageFile = Some sample_image,
      ci_imagePreview = Some ''data:image/png;base64,AAAA''\<rparr>"

text \<open>A backend whose chat route answers with an empty list of choices.\<close>

definition empty_choices_backend :: "unit backend" where
  "empty_choices_backend =
     \<lparr>post_sessions = (\<lambda>mdl t u. (Inl (AxiosError None), u)),
      post_chat = (\<lambda>request u.
        (Inr \<lparr>resp_id = ''gen-2'', resp_model = req_model request, choices = [],
              resp_usage = None\<rparr>, u)),
      get_sessions = (\<lambda>u. (Inr [], u))\<rparr>"

definition app_in_session :: app_state where
  "app_in_session =
     \<lparr>models = [], selectedModel = ''m1'', sessions = [],
      currentSession =
        Some \<lparr>cs_id = ''0'', title = ''Chat 1'', modelId = ''m1'', messages = [],
              createdAt = DateOfString ''0'', updatedAt = DateOfString ''0''\<rparr>,
      isLoading = False, error = None\<rparr>"

definition idle_network :: "unit network" where
  "idle_network = \<lparr>server = (), sent = []\<rparr>"

text \<open>An upstream gateway that answers every completion with no choice.\<close>

definition empty_choices_upstream :: upstream where
  "empty_choices_upstream mdl msgs =
     Inr \<lparr>resp_id = ''gen-4'', resp_model = mdl, choices = [], resp_usage = None\<rparr>"





text \<open>A message as the server sends it, with an image reference.\<close>

definition sample_server_message :: server_message where
  "sample_server_message =
     \<lparr>sm_id = ''7'', sm_role = ''user'', sm_content = ''What is in this image?'',
      sm_timestamp = ''2024-01-01T12:00:00'',
      image_url = Some ''data:image/png;base64,AAAA''\<rparr>"

text \<open>
  The message that an append with an image reference stores in the store with one
  session, and the store after it.
\<close>

definition image_message :: db_message where
  "image_message =
     \<lparr>msg_id = ''1'', msg_session_id = Some ''0'', msg_role = ''user'',
      msg_content = ''What is in this image?'',
      msg_image_url = Some ''data:image/png;base64,AAAA'', msg_timestamp = 5,
      extra_metadata = None\<rparr>"

definition store_with_image :: store where
  "store_with_image =
     \<lparr>chat_sessions = [\<lparr>ses_id = ''0'', ses_title = ''Chat 1'', ses_model_id = ''m1'',
                         ses_created_at = 0, ses_updated_at = 5\<rparr>],
      stored_messages = [image_message], next_id = 2\<rparr>"

text \<open>A store with one session, and two appends to it that carry the same timestamp.\<close>

definition one_session_store :: store where
  "one_session_store = perform_all empty_store [CreateSession ''m1'' (Some ''Chat 1'') 0]"

definition two_appends :: "store_call list" where
  "two_appends =
     [AppendMessage ''0'' ''user'' ''hi'' None None 5,
      AppendMessage ''0'' ''assistant'' ''hello'' None None 5]"

section \<open>Properties of the model catalog\<close>

lemma free_filter_iff:
  "(dict_get (prompt (dict_get (um_pricing m) empty_pricing)) ''1'' = ''0''
    \<and> dict_get (completion (dict_get (um_pricing m) empty_pricing)) ''1'' = ''0'')
   = both_prices_zero m"
  by (auto simp: dict_get_def empty_pricing_def both_prices_zero_def zero_cost_marker_def
           split: option.splits)

lemma check_vision_support_iff:
  "check_vision_support m \<longleftrightarrow> ''image'' \<in> set (declared_modalities m)"
  by (simp add: check_vision_support_def declared_modalities_def dict_get_def
        empty_architecture_def split: option.splits)

text \<open>
  The filter of the backend's README keeps exactly the entries both of whose prices
  equal the zero-cost marker, in upstream order; an entry without a pricing field is
  not kept.
\<close>

lemma listFreeModels_iff_both_prices_zero:
  "listFreeModels all_models = map describe_model (filter both_prices_zero all_models)
   \<and> (m \<in> set (free_models all_models) \<longleftrightarrow> m \<in> set all_models \<and> both_prices_zero m)
   \<and> m\<lparr>um_pricing := None\<rparr> \<notin> set (free_models all_models)"
  by (simp add: listFreeModels_def free_models_def free_filter_iff)
    (simp add: both_prices_zero_def)

text \<open>
  The two filters of the project README keep every entry that the backend's filter
  keeps, and the second of them keeps exactly the entries with a zero prompt price.
\<close>

lemma free_models_subset_prompt_only:
  "set (free_models all_models) \<subseteq> set (free_models_prompt_only all_models)"
  by (auto simp: free_models_def free_models_prompt_only_def)

lemma prompt_test_present:
  "um_pricing m = Some p \<Longrightarrow> prompt p = Some price \<Longrightarrow>
     (dict_get (prompt (dict_get (um_pricing m) empty_pricing)) ''1'' = ''0'') = (price = ''0'')"
  by (simp add: dict_get_def)

lemma free_models_indexed_returns:
  "free_models_indexed all_models = Inr out \<Longrightarrow> out = free_models_prompt_only all_models"
proof (induction all_models arbitrary: out)
  case Nil
  then show ?case by (simp add: free_models_prompt_only_def)
next
  case (Cons m ms)
  from Cons.prems obtain p price rest
    where p: "um_pricing m = Some p" and price: "prompt p = Some price"
      and rest: "free_models_indexed ms = Inr rest"
      and out: "out = (if price = ''0'' then m # rest else rest)"
    by (auto split: option.splits sum.splits)
  from Cons.IH[OF rest] have "rest = free_models_prompt_only ms" .
  with out show ?case
    by (simp add: free_models_prompt_only_def prompt_test_present[OF p price])
qed


text \<open>
  Scenario A of the specification: of the two entries of the sample catalog exactly the
  free one is listed, flagged as vision-capable and with the camera glyph and a space
  before its name.
\<close>

lemma scenario_A:
  "listFreeModels sample_catalog =
     [\<lparr>md_id = ''qwen/qwen-2-vl-7b-instruct:free'',
       md_name = [CHR 0xF0, CHR 0x9F, CHR 0x93, CHR 0xB7, CHR '' '']
                 @ ''Qwen 2 VL 7B Instruct (free)'',
       md_description = None, md_context_length = Some 32768, supports_vision = True,
       md_pricing = Some \<lparr>prompt = Some ''0'', completion = Some ''0''\<rparr>\<rparr>]"
  by (simp add: listFreeModels_def free_models_def sample_catalog_def describe_model_def
        check_vision_support_def dict_get_def visual_marker_def Let_def)

text \<open>
  With the \<^verbatim>\<open>.get\<close> form of the vision test: if \<open>''image''\<close> is among the declared
  input modalities of an entry, its descriptor has \<open>supports_vision\<close> true and its
  display name is the upstream name with the camera glyph and a space put in front
  once; otherwise \<open>supports_vision\<close> is false and the name is the upstream name. The
  identifier is never changed.
\<close>

lemma vision_flag_and_marker:
  "supports_vision (describe_model m) = (''image'' \<in> set (declared_modalities m))
   \<and> md_name (describe_model m) =
       (if ''image'' \<in> set (declared_modalities m)
        then [CHR 0xF0, CHR 0x9F, CHR 0x93, CHR 0xB7, CHR '' ''] @ um_name m
        else um_name m)
   \<and> md_id (describe_model m) = um_id m"
  by (simp add: describe_model_def Let_def check_vision_support_iff visual_marker_def)

text \<open>
  The indexing form of the vision test gives the same descriptor whenever it gives one,
  and it gives one exactly for the entries that have both keys.
\<close>

lemma describe_model_indexed_agrees:
  "describe_model_indexed m = Inr d \<Longrightarrow> d = describe_model m"
  by (auto simp: describe_model_indexed_def describe_model_def check_vision_support_def
        dict_get_def Let_def split: option.splits)

lemma describe_model_indexed_raises:
  "(\<exists>e. describe_model_indexed m = Inl e)
   \<longleftrightarrow> (case um_architecture m of None \<Rightarrow> True | Some a \<Rightarrow> input_modalities a = None)"
  by (auto simp: describe_model_indexed_def Let_def split: option.splits)


section \<open>Properties of the API boundary\<close>

text \<open>
  A message that arrives with an image reference leaves \<open>transformMessage\<close> with the
  identical reference; identifiers, roles, contents and titles are copied; every
  timestamp is the \<^verbatim>\<open>Date\<close> constructed from the server's string.
\<close>

lemma transform_renames_fields:
  "imageUrl (transformMessage (msg\<lparr>image_url := Some ref\<rparr>)) = Some ref
   \<and> imageUrl (transformMessage msg) = image_url msg
   \<and> m_id (transformMessage msg) = sm_id msg
   \<and> role (transformMessage msg) = sm_role msg
   \<and> content (transformMessage msg) = sm_content msg
   \<and> timestamp (transformMessage msg) = DateOfString (sm_timestamp msg)
   \<and> cs_id (transformSession s) = ss_id s
   \<and> title (transformSession s) = ss_title s
   \<and> modelId (transformSession s) = model_id s
   \<and> createdAt (transformSession s) = DateOfString (created_at s)
   \<and> updatedAt (transformSession s) = DateOfString (updated_at s)
   \<and> map imageUrl (messages (transformSession (s\<lparr>ss_messages := Some msgs\<rparr>)))
       = map image_url msgs"
  by (simp add: transformMessage_def transformSession_def comp_def)

text \<open>
  C10. \<open>transformSession\<close> is defined on every server session: when the \<open>messages\<close>
  field is absent, the resulting session has the empty list of messages, and the
  sidebar shows the count zero for it.
\<close>

theorem transformSession_absent_messages:
  "messages (transformSession (s\<lparr>ss_messages := None\<rparr>)) = []
   \<and> sidebar_message_count (transformSession (s\<lparr>ss_messages := None\<rparr>)) = 0"
  by (simp add: transformSession_def sidebar_message_count_def)

section \<open>Generated identifiers are distinct\<close>

lemma show_nat_nonempty: "show_nat n \<noteq> []"
  by (subst show_nat.simps) simp

lemma digit_cases:
  "a < (10::nat) \<Longrightarrow>
    a = 0 \<or> a = 1 \<or> a = 2 \<or> a = 3 \<or> a = 4 \<or> a = 5 \<or> a = 6 \<or> a = 7 \<or> a = 8 \<or> a = 9"
  by arith

lemma digit_inj:
  "a < 10 \<Longrightarrow> b < 10 \<Longrightarrow> ''0123456789'' ! a = ''0123456789'' ! b \<Longrightarrow> a = (b::nat)"
  by (drule digit_cases, drule digit_cases) (elim disjE; simp)

lemma show_nat_inj: "show_nat n = show_nat m \<Longrightarrow> n = m"
proof (induction n arbitrary: m rule: show_nat.induct)
  case (1 n)
  show ?case
  proof (cases "n < 10")
    case True
    show ?thesis
    proof (cases "m < 10")
      case m: True
      with True "1.prems" show ?thesis
        by (simp add: show_nat.simps[of n] show_nat.simps[of m] digit_inj)
    next
      case m: False
      with True "1.prems" show_nat_nonempty[of "m div 10"] show ?thesis
        by (simp add: show_nat.simps[of n] show_nat.simps[of m])
    qed
  next
    case False
    show ?thesis
    proof (cases "m < 10")
      case m: True
      with False "1.prems" show_nat_nonempty[of "n div 10"] show ?thesis
        by (simp add: show_nat.simps[of n] show_nat.simps[of m])
    next
      case m: False
      from False m "1.prems" have e: "show_nat (n div 10) = show_nat (m div 10)"
        and d: "''0123456789'' ! (n mod 10) = ''0123456789'' ! (m mod 10)"
        by (simp_all add: show_nat.simps[of n] show_nat.simps[of m])
      from "1.IH"[OF False e] have "n div 10 = m div 10" .
      moreover from d have "n mod 10 = m mod 10" by (intro digit_inj) simp_all
      ultimately show ?thesis by (metis div_mult_mod_eq)
    qed
  qed
qed

section \<open>Properties of the chat handler\<close>

lemma chat_requests_append: "chat_requests (xs @ ys) = chat_requests xs @ chat_requests ys"
  by (induction xs rule: chat_requests.induct) simp_all

lemma handleNewChat_chat_requests:
  "handleNewChat b st net = (r, st', net') \<Longrightarrow> chat_requests (sent net') = chat_requests (sent net)"
  by (auto simp: handleNewChat_def createSession_def Let_def chat_requests_append
           split: if_splits prod.splits sum.splits)

lemma loadSessions_chat_requests:
  "loadSessions b st net = (st', net') \<Longrightarrow> chat_requests (sent net') = chat_requests (sent net)"
  by (auto simp: loadSessions_def getSessions_def Let_def chat_requests_append
           split: prod.splits sum.splits)

lemma show_nat_digit: "n < 10 \<Longrightarrow> show_nat n = [''0123456789'' ! n]"
  by (simp add: show_nat.simps)

text \<open>
  C3. Every run of \<open>handleSendMessage\<close> sends at most one chat request. When a session
  is resolved (the current one, or the one just created) and the attached file, if any,
  can be read, the body of that request holds all prior messages of the session as
  plain text (role and content only, never the stored image reference), followed by
  exactly one new user turn; the content of the new turn is the two parts
  \<open>[text, image_url]\<close> when an image is attached and the plain string otherwise.
\<close>

theorem outgoing_message_sequence:
  "chat_requests (sent (snd (handleSendMessage b clk new_content imageFile st net)))
   = chat_requests (sent net)
     @ (case (case currentSession st of
                Some s \<Rightarrow> (Some s, st, net)
              | None \<Rightarrow> handleNewChat b st net) of
          (None, st0, net0) \<Rightarrow> []
        | (Some session, st0, net0) \<Rightarrow>
            (case imageFile of
               None \<Rightarrow>
                 [\<lparr>req_model = selectedModel st,
                   req_messages =
                     map (\<lambda>msg. \<lparr>wm_role = role msg, wm_content = Plain (content msg)\<rparr>)
                       (messages session)
                     @ [\<lparr>wm_role = ''user'', wm_content = Plain new_content\<rparr>],
                   session_id = Some (cs_id session)\<rparr>]
             | Some f \<Rightarrow>
                 (case data_url f of
                    None \<Rightarrow> []
                  | Some url \<Rightarrow>
                      [\<lparr>req_model = selectedModel st,
                        req_messages =
                          map (\<lambda>msg. \<lparr>wm_role = role msg, wm_content = Plain (content msg)\<rparr>)
                            (messages session)
                          @ [\<lparr>wm_role = ''user'',
                              wm_content =
                                Parts [\<lparr>part_type = ''text'', part_text = Some new_content,
                                        part_image_url = None\<rparr>,
                                       \<lparr>part_type = ''image_url'', part_text = None,
                                        part_image_url = Some url\<rparr>]\<rparr>],
                        session_id = Some (cs_id session)\<rparr>])))"
proof -
  obtain resolved st0 net0 where res:
    "(case currentSession st of Some s \<Rightarrow> (Some s, st, net) | None \<Rightarrow> handleNewChat b st net)
      = (resolved, st0, net0)"
    by (cases "(case currentSession st of Some s \<Rightarrow> (Some s, st, net) | None \<Rightarrow> handleNewChat b st net)") auto
  have n0: "chat_requests (sent net0) = chat_requests (sent net)"
    using res by (auto split: option.splits dest: handleNewChat_chat_requests)
  show ?thesis
    unfolding handleSendMessage_def res
    using n0
    by (auto simp: Let_def sendMessage_def fileToBase64_def chat_requests_append
             split: option.splits sum.splits prod.splits list.splits
             dest: loadSessions_chat_requests)
qed

text \<open>
  The client never sends a turn without a session identifier. When no session is
  current, the handler creates one first: with no model selected nothing is sent and
  the failure \<open>''Failed to create chat session''\<close> is reported; with a model selected
  the first request sent is \<^verbatim>\<open>POST /sessions/\<close> for the selected model with the
  title \<open>Chat n+1\<close>, and every chat request the run sends carries the identifier of
  the session that this request created.
\<close>

lemma session_created_first:
  assumes "currentSession st = None"
  shows "(selectedModel st = [] \<longrightarrow>
            sent (snd (handleSendMessage b clk new_content imageFile st net)) = sent net
            \<and> error (fst (handleSendMessage b clk new_content imageFile st net))
                = Some ''Failed to create chat session'')
       \<and> (selectedModel st \<noteq> [] \<longrightarrow>
            take (Suc (length (sent net)))
              (sent (snd (handleSendMessage b clk new_content imageFile st net)))
            = sent net @ [POST_sessions (selectedModel st)
                            (''Chat '' @ show_nat (length (sessions st) + 1))])
       \<and> (\<forall>r \<in> set (chat_requests (sent (snd (handleSendMessage b clk new_content imageFile st net)))).
            r \<in> set (chat_requests (sent net))
            \<or> (\<exists>data srv'.
                  post_sessions b (selectedModel st)
                    (''Chat '' @ show_nat (length (sessions st) + 1)) (server net) = (Inr data, srv')
                  \<and> session_id r = Some (ss_id data)))"
  using assms
  by (simp add: handleSendMessage_def handleNewChat_def createSession_def Let_def
        sendMessage_def loadSessions_def getSessions_def fileToBase64_def chat_requests_append
        transformSession_def
      split: prod.splits sum.splits option.splits list.splits)

lemma persist_sessions_length:
  "length (chat_sessions (persist sessionId r c img now st)) = length (chat_sessions st)"
  by (simp add: persist_def store_appendMessage_def Let_def split: option.splits)

lemma sendTurn_sessions_length:
  "length (chat_sessions (snd (sendTurn up mdl prior sessionId c img now st)))
    = length (chat_sessions st)"
  by (simp add: sendTurn_def Let_def persist_sessions_length
      split: sum.splits option.splits list.splits prod.splits)

lemma chat_post_sessions_length:
  "chat_post up request srv = (r, srv') \<Longrightarrow>
    length (chat_sessions (srv_store srv')) = length (chat_sessions (srv_store srv))"
  using sendTurn_sessions_length[of up "req_model request" "butlast (req_messages request)"
      "session_id request" "turn_text (wm_content (last (req_messages request)))"
      "turn_image (wm_content (last (req_messages request)))" "srv_clock srv" "srv_store srv"]
  by (auto simp: chat_post_def Let_def split: if_splits prod.splits sum.splits)

lemma listSessions_length: "length (store_listSessions st) = length (chat_sessions st)"
  by (simp add: store_listSessions_def)

lemma created_session_is_listed:
  assumes "currentSession st = None" and "selectedModel st \<noteq> []"
  shows "length (store_listSessions (srv_store (server (snd
            (handleSendMessage (orchestration_backend up) clk new_content imageFile st net)))))
         = Suc (length (store_listSessions (srv_store (server net))))"
  using assms
  by (auto simp: handleSendMessage_def handleNewChat_def createSession_def Let_def
        sendMessage_def loadSessions_def getSessions_def fileToBase64_def
        orchestration_backend_def sessions_post_def sessions_get_def listSessions_length
        store_createSession_def
      split: prod.splits sum.splits option.splits list.splits
      dest!: chat_post_sessions_length)

text \<open>
  A run with no current session against the orchestration backend: before it the store
  lists no session; after it the store lists the session \<open>''0''\<close> and holds the two
  messages of the exchange.
\<close>

lemma auto_created_session_example:
  "currentSession initial_app = None
   \<and> map ses_id (store_listSessions (srv_store (server initial_network))) = []
   \<and> map ses_id (store_listSessions (srv_store (server (snd
        (handleSendMessage (orchestration_backend one_choice_upstream) sample_clock ''hi'' None
           initial_app initial_network))))) = [''0'']
   \<and> map msg_content (stored_messages (srv_store (server (snd
        (handleSendMessage (orchestration_backend one_choice_upstream) sample_clock ''hi'' None
           initial_app initial_network))))) = [''hi'', ''hello'']"
  by (simp add: initial_app_def initial_network_def sample_clock_def one_choice_upstream_def
        orchestration_backend_def handleSendMessage_def handleNewChat_def createSession_def
        sendMessage_def loadSessions_def getSessions_def sessions_post_def chat_post_def
        sessions_get_def sendTurn_def persist_def user_turn_def store_createSession_def
        store_getSession_def store_listSessions_def store_appendMessage_def session_exists_def
        empty_store_def session_json_def message_json_def transformSession_def
        transformMessage_def turn_text_def turn_image_def show_nat_digit Let_def)

section \<open>Properties of the message input\<close>

text \<open>
  C7 (as the input has it). A submission is dropped exactly when the text is blank and
  no image is attached, which is also when the submit button is disabled. A submission that goes through passes the text and the image
  on unchanged, and has non-blank text or an image; a blank text with an image attached
  goes through. The message that the handler builds for a turn with a readable image
  has the submitted text as its content, whatever it is, and the data URL of the image
  as its image reference.
\<close>

theorem submitted_turn_has_text_or_image:
  "(fst (handleSubmit ci) = None \<longleftrightarrow> trim (ci_message ci) = [] \<and> ci_imageFile ci = None)
   \<and> (fst (handleSubmit ci) = None \<longleftrightarrow> submit_disabled False ci)
   \<and> (\<forall>c f. fst (handleSubmit ci) = Some (c, f) \<longrightarrow>
         c = ci_message ci \<and> f = ci_imageFile ci \<and> (trim c \<noteq> [] \<or> f \<noteq> None))
   \<and> (trim (ci_message ci) = [] \<and> ci_imageFile ci \<noteq> None \<longrightarrow>
         fst (handleSubmit ci) = Some (ci_message ci, ci_imageFile ci))
   \<and> (currentSession st = Some session \<and> data_url attached = Some url \<longrightarrow>
         (\<exists>s. currentSession (fst (handleSendMessage b clk new_content (Some attached) st net)) = Some s
            \<and> length (messages session) < length (messages s)
            \<and> role (messages s ! length (messages session)) = ''user''
            \<and> content (messages s ! length (messages session)) = new_content
            \<and> imageUrl (messages s ! length (messages session)) = Some url))"
proof -
  have "currentSession st = Some session \<and> data_url attached = Some url \<longrightarrow>
         (\<exists>s. currentSession (fst (handleSendMessage b clk new_content (Some attached) st net)) = Some s
            \<and> length (messages session) < length (messages s)
            \<and> role (messages s ! length (messages session)) = ''user''
            \<and> content (messages s ! length (messages session)) = new_content
            \<and> imageUrl (messages s ! length (messages session)) = Some url)"
    by (auto simp: handleSendMessage_def Let_def sendMessage_def fileToBase64_def
          loadSessions_def getSessions_def nth_append
        split: prod.splits sum.splits list.splits)
  then show ?thesis by (auto simp: handleSubmit_def submit_disabled_def)
qed

theorem submitted_turn_has_text_or_image_witness:
  "fst (handleSubmit image_only_input) = Some ([], Some sample_image)
   \<and> trim (ci_message image_only_input) = []
   \<and> ci_imageFile image_only_input \<noteq> None
   \<and> currentSession app_in_session
       = Some \<lparr>cs_id = ''0'', title = ''Chat 1'', modelId = ''m1'', messages = [],
              createdAt = DateOfString ''0'', updatedAt = DateOfString ''0''\<rparr>
   \<and> data_url sample_image = Some ''data:image/png;base64,AAAA''
   \<and> (\<exists>s. currentSession (fst (handleSendMessage empty_choices_backend sample_clock []
                 (Some sample_image) app_in_session idle_network)) = Some s
          \<and> content (messages s ! 0) = []
          \<and> imageUrl (messages s ! 0) = Some ''data:image/png;base64,AAAA'')"
  using submitted_turn_has_text_or_image[where ci = image_only_input and st = app_in_session
      and session = "\<lparr>cs_id = ''0'', title = ''Chat 1'', modelId = ''m1'', messages = [],
              createdAt = DateOfString ''0'', updatedAt = DateOfString ''0''\<rparr>"
      and attached = sample_image and url = "''data:image/png;base64,AAAA''"
      and b = empty_choices_backend and clk = sample_clock and new_content = "[]"
      and net = idle_network]
  by (auto simp: image_only_input_def trim_def app_in_session_def sample_image_def)

text \<open>
  The input with an image and no text submits the turn, and the handler builds, sends
  and the backend stores a user message with an image and the empty content.
\<close>

theorem image_without_text_counterexample:
  "fst (handleSubmit image_only_input) = Some ([], Some sample_image)
   \<and> map (\<lambda>m. (role m, content m, imageUrl m))
       (case currentSession (fst (handleSendMessage (orchestration_backend one_choice_upstream)
               sample_clock [] (Some sample_image) initial_app initial_network)) of
          Some s \<Rightarrow> messages s | None \<Rightarrow> [])
     = [(''user'', [], Some ''data:image/png;base64,AAAA''), (''assistant'', ''hello'', None)]
   \<and> map (\<lambda>m. (msg_role m, msg_content m, msg_image_url m))
       (stored_messages (srv_store (server (snd
          (handleSendMessage (orchestration_backend one_choice_upstream)
               sample_clock [] (Some sample_image) initial_app initial_network)))))
     = [(''user'', [], Some ''data:image/png;base64,AAAA''), (''assistant'', ''hello'', None)]"
  by (simp add: image_only_input_def sample_image_def handleSubmit_def trim_def
        initial_app_def initial_network_def sample_clock_def one_choice_upstream_def
        orchestration_backend_def handleSendMessage_def handleNewChat_def createSession_def
        sendMessage_def loadSessions_def getSessions_def sessions_post_def chat_post_def
        sessions_get_def sendTurn_def persist_def user_turn_def store_createSession_def
        store_getSession_def store_listSessions_def store_appendMessage_def session_exists_def
        empty_store_def session_json_def message_json_def transformSession_def
        transformMessage_def turn_text_def turn_image_def fileToBase64_def show_nat_digit
        List.map_filter_def Let_def)

section \<open>Properties of the conversation store\<close>

lemma find_session_None:
  "find (\<lambda>s. ses_id s = sid) (chat_sessions st) = None \<longleftrightarrow> \<not> session_exists sid st"
  by (auto simp: find_None_iff session_exists_def)

lemma find_session_Some:
  "find (\<lambda>s. ses_id s = sid) (chat_sessions st) = Some s \<Longrightarrow> ses_id s = sid"
  by (auto simp: find_Some_iff)

lemma map_ids_replace:
  "ses_id s' = sid \<Longrightarrow> map ses_id (map (\<lambda>x. if ses_id x = sid then s' else x) xs) = map ses_id xs"
  by (induction xs) auto

lemma map_ids_bump:
  "map ses_id (map (\<lambda>x. if ses_id x = sid then x\<lparr>ses_updated_at := now\<rparr> else x) xs)
    = map ses_id xs"
  by (induction xs) auto

lemma after_create:
  "session_exists x (snd (store_createSession mdl t now st))
     \<longleftrightarrow> x = show_nat (next_id st) \<or> session_exists x st"
  "next_id (snd (store_createSession mdl t now st)) = Suc (next_id st)"
  "stored_messages (snd (store_createSession mdl t now st)) = stored_messages st"
  by (auto simp: store_createSession_def session_exists_def Let_def)

lemma after_update:
  assumes "store_updateTitle sid t now st = Inr (s, st')"
  shows "session_exists x st' \<longleftrightarrow> session_exists x st"
    and "next_id st' = next_id st"
    and "stored_messages st' = stored_messages st"
proof -
  from assms obtain s0 where f: "find (\<lambda>s. ses_id s = sid) (chat_sessions st) = Some s0"
    and st': "st' = st\<lparr>chat_sessions :=
        map (\<lambda>x. if ses_id x = sid then s0\<lparr>ses_title := t, ses_updated_at := now\<rparr> else x)
          (chat_sessions st)\<rparr>"
    by (auto simp: store_updateTitle_def Let_def split: option.splits)
  have "ses_id (s0\<lparr>ses_title := t, ses_updated_at := now\<rparr>) = sid"
    using find_session_Some[OF f] by simp
  then have "map ses_id (chat_sessions st') = map ses_id (chat_sessions st)"
    unfolding st' by (simp add: map_ids_replace del: map_map)
  then show "session_exists x st' \<longleftrightarrow> session_exists x st"
    by (simp only: session_exists_def)
  show "next_id st' = next_id st" "stored_messages st' = stored_messages st"
    by (simp_all add: st')
qed

lemma after_delete:
  assumes "store_deleteSession sid st = Inr st'"
  shows "session_exists x st' \<longleftrightarrow> x \<noteq> sid \<and> session_exists x st"
    and "next_id st' = next_id st"
    and "stored_messages st' = filter (\<lambda>m. msg_session_id m \<noteq> Some sid) (stored_messages st)"
    and "session_exists sid st"
  using assms by (auto simp: store_deleteSession_def session_exists_def split: if_splits)

lemma after_append:
  assumes "store_appendMessage sid r c img md now st = Inr (m, st')"
  shows "session_exists x st' \<longleftrightarrow> session_exists x st"
    and "next_id st' = Suc (next_id st)"
    and "stored_messages st' = stored_messages st @ [m]"
    and "session_exists sid st"
    and "m = \<lparr>msg_id = show_nat (next_id st), msg_session_id = Some sid, msg_role = r,
              msg_content = c, msg_image_url = img, msg_timestamp = now,
              extra_metadata = md\<rparr>"
proof -
  from assms have ex: "session_exists sid st"
    by (auto simp: store_appendMessage_def split: if_splits)
  with assms have st': "st' = st\<lparr>stored_messages := stored_messages st @ [m],
        chat_sessions := map (\<lambda>x. if ses_id x = sid then x\<lparr>ses_updated_at := now\<rparr> else x)
                           (chat_sessions st),
        next_id := next_id st + 1\<rparr>"
    and m: "m = \<lparr>msg_id = show_nat (next_id st), msg_session_id = Some sid, msg_role = r,
              msg_content = c, msg_image_url = img, msg_timestamp = now,
              extra_metadata = md\<rparr>"
    by (auto simp: store_appendMessage_def Let_def)
  have "map ses_id (chat_sessions st') = map ses_id (chat_sessions st)"
    unfolding st' by (simp add: map_ids_bump del: map_map)
  then show "session_exists x st' \<longleftrightarrow> session_exists x st"
    by (simp only: session_exists_def)
  show "next_id st' = Suc (next_id st)" "stored_messages st' = stored_messages st @ [m]"
    by (simp_all add: st')
  show "session_exists sid st" by (rule ex)
  show "m = \<lparr>msg_id = show_nat (next_id st), msg_session_id = Some sid, msg_role = r,
              msg_content = c, msg_image_url = img, msg_timestamp = now,
              extra_metadata = md\<rparr>" by (rule m)
qed

lemma perform_ids_generated: "ids_generated st \<Longrightarrow> ids_generated (perform st call)"
proof (cases call)
  case (CreateSession mdl t now)
  assume "ids_generated st"
  then show ?thesis
    unfolding ids_generated_def CreateSession perform.simps after_create
    by (metis less_Suc_eq)
next
  case (UpdateTitle sid t now)
  assume "ids_generated st"
  then show ?thesis
    unfolding UpdateTitle
    by (auto simp: ids_generated_def after_update split: sum.splits)
next
  case (DeleteSession sid)
  assume "ids_generated st"
  then show ?thesis
    unfolding DeleteSession
    by (auto simp: ids_generated_def after_delete split: sum.splits)
next
  case (AppendMessage sid r c img md now)
  assume "ids_generated st"
  then show ?thesis
    unfolding AppendMessage
    by (auto simp: ids_generated_def after_append(1,2) less_Suc_eq split: sum.splits)
qed

lemma perform_no_orphans: "no_orphans st \<Longrightarrow> no_orphans (perform st call)"
proof (cases call)
  case (CreateSession mdl t now)
  assume "no_orphans st"
  then show ?thesis
    unfolding CreateSession by (auto simp: no_orphans_def after_create)
next
  case (UpdateTitle sid t now)
  assume "no_orphans st"
  then show ?thesis
    unfolding UpdateTitle by (auto simp: no_orphans_def after_update split: sum.splits)
next
  case (DeleteSession sid)
  assume "no_orphans st"
  then show ?thesis
    unfolding DeleteSession by (auto simp: no_orphans_def after_delete(1,3) split: sum.splits)
next
  case (AppendMessage sid r c img md now)
  assume o: "no_orphans st"
  show ?thesis
  proof (cases "store_appendMessage sid r c img md now st")
    case (Inl e)
    with o show ?thesis unfolding AppendMessage by simp
  next
    case (Inr p)
    obtain m st' where p: "p = (m, st')" by (cases p)
    note a = after_append[OF Inr[unfolded p]]
    have "msg_session_id m = Some sid" by (simp add: a(5))
    with o a(4) show ?thesis
      unfolding AppendMessage by (auto simp: Inr p no_orphans_def a(1) a(3))
  qed
qed

lemma perform_retired: "retired sid st \<Longrightarrow> retired sid (perform st call)"
proof (cases call)
  case (CreateSession mdl t now)
  assume "retired sid st"
  then show ?thesis
    unfolding CreateSession
    by (auto simp: retired_def after_create less_Suc_eq dest: show_nat_inj)
next
  case (UpdateTitle x t now)
  assume "retired sid st"
  then show ?thesis
    unfolding UpdateTitle by (auto simp: retired_def after_update split: sum.splits)
next
  case (DeleteSession x)
  assume "retired sid st"
  then show ?thesis
    unfolding DeleteSession by (auto simp: retired_def after_delete(1,2) split: sum.splits)
next
  case (AppendMessage x r c img md now)
  assume "retired sid st"
  then show ?thesis
    unfolding AppendMessage
    by (auto simp: retired_def after_append(1,2) less_Suc_eq split: sum.splits)
qed

lemma perform_all_ids_generated: "ids_generated st \<Longrightarrow> ids_generated (perform_all st calls)"
  unfolding perform_all_def by (induction calls arbitrary: st) (simp_all add: perform_ids_generated)

lemma perform_all_no_orphans: "no_orphans st \<Longrightarrow> no_orphans (perform_all st calls)"
  unfolding perform_all_def by (induction calls arbitrary: st) (simp_all add: perform_no_orphans)

lemma perform_all_retired: "retired sid st \<Longrightarrow> retired sid (perform_all st calls)"
  unfolding perform_all_def by (induction calls arbitrary: st) (simp_all add: perform_retired)

lemma delete_retires:
  "ids_generated st0 \<Longrightarrow> store_deleteSession sid st0 = Inr st \<Longrightarrow> retired sid st"
  by (auto simp: ids_generated_def retired_def after_delete(1,2) dest: after_delete(4))

lemma retired_not_found:
  "retired sid st \<Longrightarrow>
    store_getSession sid st = Inl NotFound
    \<and> store_appendMessage sid r c img md now st = Inl NotFound"
  using find_session_None[of sid st]
  by (simp add: retired_def store_getSession_def store_appendMessage_def)

text \<open>
  C6. After \<open>deleteSession\<close> has succeeded for an identifier in a state of the store,
  \<open>getSession\<close> and \<open>appendMessage\<close> for that identifier fail with \<open>NotFound\<close>,
  whatever calls come in between; and in every state of the store each message refers
  to a session that exists.
\<close>

theorem deleted_session_not_found_no_orphans:
  "(store_deleteSession sid (perform_all empty_store before) = Inr st \<longrightarrow>
      store_getSession sid (perform_all st after) = Inl NotFound
      \<and> store_appendMessage sid r c img md now (perform_all st after) = Inl NotFound)
   \<and> (\<forall>m \<in> set (stored_messages (perform_all empty_store calls)).
        \<exists>x. msg_session_id m = Some x \<and> session_exists x (perform_all empty_store calls))"
proof -
  have g: "ids_generated (perform_all empty_store before)"
    by (rule perform_all_ids_generated)
      (simp add: ids_generated_def empty_store_def session_exists_def)
  have o: "no_orphans (perform_all empty_store calls)"
    by (rule perform_all_no_orphans) (simp add: no_orphans_def empty_store_def)
  show ?thesis
    using o delete_retires[OF g] perform_all_retired retired_not_found
    by (auto simp: no_orphans_def)
qed


theorem deleted_session_not_found_no_orphans_witness:
  "store_deleteSession ''0'' (perform_all empty_store
       [CreateSession ''m1'' (Some ''Chat 1'') 0, AppendMessage ''0'' ''user'' ''hi'' None None 1])
     = Inr \<lparr>chat_sessions = [], stored_messages = [], next_id = 2\<rparr>
   \<and> store_getSession ''0''
       (perform_all \<lparr>chat_sessions = [], stored_messages = [], next_id = 2\<rparr>
          [CreateSession ''m1'' None 2]) = Inl NotFound"
proof -
  have d: "store_deleteSession ''0'' (perform_all empty_store
       [CreateSession ''m1'' (Some ''Chat 1'') 0, AppendMessage ''0'' ''user'' ''hi'' None None 1])
     = Inr \<lparr>chat_sessions = [], stored_messages = [], next_id = 2\<rparr>"
    by (simp add: perform_all_def empty_store_def store_createSession_def
          store_appendMessage_def store_deleteSession_def session_exists_def show_nat_digit
          Let_def)
  from deleted_session_not_found_no_orphans[of "''0''"
      "[CreateSession ''m1'' (Some ''Chat 1'') 0, AppendMessage ''0'' ''user'' ''hi'' None None 1]"
      "\<lparr>chat_sessions = [], stored_messages = [], next_id = 2\<rparr>"
      "[CreateSession ''m1'' None 2]"] d
  show ?thesis by simp
qed

lemma session_exists_perform:
  "session_exists sid st \<Longrightarrow> call \<noteq> DeleteSession sid \<Longrightarrow> session_exists sid (perform st call)"
  by (cases call)
    (auto simp: after_create after_update after_delete(1) after_append(1) split: sum.splits)

lemma session_messages_perform:
  assumes ex: "session_exists sid st" and ne: "call \<noteq> DeleteSession sid"
  shows "map message_fields (session_messages sid (perform st call))
     = map message_fields (session_messages sid st) @ appends_on sid [call]"
proof (cases call)
  case (CreateSession mdl t now)
  then show ?thesis by (simp add: session_messages_def after_create)
next
  case (UpdateTitle x t now)
  then show ?thesis by (auto simp: session_messages_def after_update split: sum.splits)
next
  case (DeleteSession x)
  with ne have "x \<noteq> sid" by simp
  then have eq: "\<And>m. (msg_session_id m \<noteq> Some x \<and> msg_session_id m = Some sid)
               = (msg_session_id m = Some sid)"
    by auto
  show ?thesis
    unfolding DeleteSession
    by (auto simp: session_messages_def after_delete(3) eq split: sum.splits)
next
  case (AppendMessage x r c img md now)
  show ?thesis
  proof (cases "store_appendMessage x r c img md now st")
    case (Inl e)
    then have "\<not> session_exists x st"
      by (auto simp: store_appendMessage_def Let_def split: if_splits)
    with ex have "x \<noteq> sid" by auto
    with Inl show ?thesis unfolding AppendMessage by simp
  next
    case (Inr p)
    obtain m st' where p: "p = (m, st')" by (cases p)
    note a = after_append[OF Inr[unfolded p]]
    show ?thesis
      unfolding AppendMessage
      by (simp add: Inr p session_messages_def a(3)) (simp add: a(5) message_fields_def)
  qed
qed

lemma appends_on_Cons: "appends_on sid (call # calls) = appends_on sid [call] @ appends_on sid calls"
  by (cases call) simp_all

lemma session_messages_perform_all:
  "session_exists sid st \<Longrightarrow> DeleteSession sid \<notin> set calls \<Longrightarrow>
     session_exists sid (perform_all st calls)
     \<and> map message_fields (session_messages sid (perform_all st calls))
       = map message_fields (session_messages sid st) @ appends_on sid calls"
proof (induction calls arbitrary: st)
  case Nil
  then show ?case by (simp add: perform_all_def)
next
  case (Cons call calls)
  from Cons.prems have ne: "call \<noteq> DeleteSession sid" and rest: "DeleteSession sid \<notin> set calls"
    by auto
  from Cons.prems(1) ne have ex: "session_exists sid (perform st call)"
    by (rule session_exists_perform)
  from Cons.IH[OF ex rest] session_messages_perform[OF Cons.prems(1) ne]
  show ?case
    by (simp add: perform_all_def appends_on_Cons[of sid call calls])
qed

text \<open>
  C9. For a session that exists, after any sequence of calls that does not delete it,
  \<open>getSession\<close> gives the messages it had before followed by the messages appended
  to it, in the order of the appends. The timestamps of the appends are arbitrary, so
  the order holds also when consecutive appends carry equal timestamps.
\<close>

theorem messages_in_append_order:
  assumes "session_exists sid st" and "DeleteSession sid \<notin> set calls"
  shows "\<exists>s msgs. store_getSession sid (perform_all st calls) = Inr (s, msgs)
           \<and> map message_fields msgs
             = map message_fields (session_messages sid st) @ appends_on sid calls"
proof -
  from session_messages_perform_all[OF assms]
  have ex: "session_exists sid (perform_all st calls)"
    and ms: "map message_fields (session_messages sid (perform_all st calls))
       = map message_fields (session_messages sid st) @ appends_on sid calls"
    by simp_all
  from ex obtain s where "find (\<lambda>s. ses_id s = sid) (chat_sessions (perform_all st calls)) = Some s"
    using find_session_None[of sid "perform_all st calls"]
    by (cases "find (\<lambda>s. ses_id s = sid) (chat_sessions (perform_all st calls))") auto
  then have "store_getSession sid (perform_all st calls)
      = Inr (s, session_messages sid (perform_all st calls))"
    by (simp add: store_getSession_def session_messages_def)
  with ms show ?thesis by blast
qed

theorem messages_in_append_order_witness:
  "session_exists ''0'' one_session_store
   \<and> DeleteSession ''0'' \<notin> set two_appends
   \<and> (\<exists>s msgs. store_getSession ''0'' (perform_all one_session_store two_appends) = Inr (s, msgs)
         \<and> map message_fields msgs
           = [(''user'', ''hi'', None, None, 5), (''assistant'', ''hello'', None, None, 5)])"
proof -
  have e: "session_exists ''0'' one_session_store"
    by (simp add: one_session_store_def perform_all_def empty_store_def
          store_createSession_def session_exists_def show_nat_digit Let_def)
  have n: "DeleteSession ''0'' \<notin> set two_appends"
    by (simp add: two_appends_def)
  have o: "session_messages ''0'' one_session_store = []"
    by (simp add: one_session_store_def perform_all_def empty_store_def
          store_createSession_def session_messages_def Let_def)
  from messages_in_append_order[OF e n] e n show ?thesis
    by (simp add: o) (simp add: two_appends_def)
qed

text \<open>
  The chat orchestration changes the store only through \<open>appendMessage\<close>: its states
  are states reached by calls of the store.
\<close>

lemma persist_performs:
  "\<exists>calls. persist sessionId r c img now st = perform_all st calls"
proof (cases sessionId)
  case None
  then have "persist sessionId r c img now st = perform_all st []"
    by (simp add: persist_def perform_all_def)
  then show ?thesis ..
next
  case (Some sid)
  then have "persist sessionId r c img now st = perform_all st [AppendMessage sid r c img None now]"
    by (simp add: persist_def perform_all_def split: sum.splits)
  then show ?thesis ..
qed

lemma perform_all_append: "perform_all (perform_all st xs) ys = perform_all st (xs @ ys)"
  by (simp add: perform_all_def)

lemma sendTurn_performs:
  "\<exists>calls. snd (sendTurn up mdl prior sessionId c img now st) = perform_all st calls"
proof -
  obtain c1 where c1: "persist sessionId ''user'' c img now st = perform_all st c1"
    using persist_performs by blast
  have c2: "\<exists>calls. persist sessionId ''assistant'' a None now (perform_all st c1) = perform_all st calls" for a
    using persist_performs[of sessionId "''assistant''" a None now "perform_all st c1"]
    by (auto simp: perform_all_append)
  have c0: "\<exists>calls. st = perform_all st calls"
    by (rule exI[of _ "[]"]) (simp add: perform_all_def)
  have c1': "\<exists>calls. perform_all st c1 = perform_all st calls" by blast
  show ?thesis
    using c0 c1' c2
    by (auto simp: sendTurn_def Let_def c1 split: sum.splits option.splits list.splits prod.splits)
qed

section \<open>Properties of the chat orchestration\<close>

lemma sendTurn_by_assembled:
  "sendTurn up mdl prior sessionId c img now st =
     (case assembled_messages prior sessionId c img st of
        Inl e \<Rightarrow> (Inl e, st)
      | Inr outgoing \<Rightarrow>
          (case up mdl outgoing of
             Inl e \<Rightarrow> (Inl e, persist sessionId ''user'' c img now st)
           | Inr response \<Rightarrow>
               (case choices response of
                  [] \<Rightarrow> (Inl UpstreamRejected, persist sessionId ''user'' c img now st)
                | first_choice # rest \<Rightarrow>
                    (Inr \<lparr>reply_text = reply_content (choice_message first_choice),
                          model_used = resp_model response,
                          token_usage = resp_usage response\<rparr>,
                     persist sessionId ''assistant''
                       (reply_content (choice_message first_choice)) None now
                       (persist sessionId ''user'' c img now st)))))"
  by (simp add: sendTurn_def assembled_messages_def Let_def
      split: option.splits sum.splits prod.splits list.splits)

text \<open>
  C4. A turn without a session identifier persists nothing: \<open>sendTurn\<close> leaves the
  store as it was, so \<open>listSessions\<close> gives the same sessions and no message is added,
  whatever the upstream capability answers; the chat route leaves the store as it was
  when the request carries no session identifier. The outcome of the upstream call is
  still returned: the reply of the first choice with the model used and the usage, the
  upstream's failure, or \<open>UpstreamRejected\<close> for an empty list of choices.
\<close>

theorem sessionless_turn_persists_nothing:
  "snd (sendTurn up mdl prior None c img now st) = st
   \<and> store_listSessions (snd (sendTurn up mdl prior None c img now st)) = store_listSessions st
   \<and> stored_messages (snd (sendTurn up mdl prior None c img now st)) = stored_messages st
   \<and> fst (sendTurn up mdl prior None c img now st) =
       (case up mdl (prior @ [user_turn c img]) of
          Inl e \<Rightarrow> Inl e
        | Inr response \<Rightarrow>
            (case choices response of
               [] \<Rightarrow> Inl UpstreamRejected
             | first_choice # rest \<Rightarrow>
                 Inr \<lparr>reply_text = reply_content (choice_message first_choice),
                      model_used = resp_model response, token_usage = resp_usage response\<rparr>))
   \<and> srv_store (snd (chat_post up (request\<lparr>session_id := None\<rparr>) srv)) = srv_store srv"
proof -
  have a: "snd (sendTurn up' mdl' prior' None c' img' now' st') = st'"
    for up' mdl' prior' c' img' now' st'
    by (simp add: sendTurn_by_assembled assembled_messages_def persist_def
        split: sum.splits list.splits)
  have b: "fst (sendTurn up mdl prior None c img now st) =
       (case up mdl (prior @ [user_turn c img]) of
          Inl e \<Rightarrow> Inl e
        | Inr response \<Rightarrow>
            (case choices response of
               [] \<Rightarrow> Inl UpstreamRejected
             | first_choice # rest \<Rightarrow>
                 Inr \<lparr>reply_text = reply_content (choice_message first_choice),
                      model_used = resp_model response, token_usage = resp_usage response\<rparr>))"
    by (simp add: sendTurn_by_assembled assembled_messages_def
        split: sum.splits list.splits)
  have c: "srv_store (snd (chat_post up (request\<lparr>session_id := None\<rparr>) srv)) = srv_store srv"
    using a[of up "req_model request" "butlast (req_messages request)"
        "turn_text (wm_content (last (req_messages request)))"
        "turn_image (wm_content (last (req_messages request)))" "srv_clock srv" "srv_store srv"]
    by (auto simp: chat_post_def Let_def split: prod.splits sum.splits)
  from a b c show ?thesis by simp
qed

text \<open>
  Scenario C of the specification: a turn without a session identifier, answered by the
  upstream with one choice, returns the reply and leaves the one session of the store
  and its messages as they were.
\<close>

theorem sessionless_turn_persists_nothing_witness:
  "fst (sendTurn one_choice_upstream ''m1'' [] None ''hi'' None 7 one_session_store)
     = Inr \<lparr>reply_text = ''hello'', model_used = ''m1'', token_usage = None\<rparr>
   \<and> map ses_id (store_listSessions
        (snd (sendTurn one_choice_upstream ''m1'' [] None ''hi'' None 7 one_session_store)))
     = [''0'']
   \<and> map ses_id (store_listSessions one_session_store) = [''0'']
   \<and> stored_messages
        (snd (sendTurn one_choice_upstream ''m1'' [] None ''hi'' None 7 one_session_store)) = []"
  using sessionless_turn_persists_nothing[of one_choice_upstream "''m1''" "[]" "''hi''" None 7
      one_session_store]
  by (simp add: one_choice_upstream_def one_session_store_def perform_all_def empty_store_def
        store_createSession_def store_listSessions_def show_nat_digit Let_def)

text \<open>
  C5. When the session resolves and the upstream capability answers the assembled
  messages with an empty list of choices, \<open>sendTurn\<close> fails with \<open>UpstreamRejected\<close>,
  and nothing but the user's turn has been persisted. A success of \<open>sendTurn\<close> always
  carries the reply of the first choice of a non-empty list, and a response of the chat
  route never has an empty list of choices.
\<close>

theorem empty_choices_rejected:
  "(assembled_messages prior sessionId c img st = Inr outgoing
      \<and> up mdl outgoing = Inr response \<and> choices response = []
    \<longrightarrow> fst (sendTurn up mdl prior sessionId c img now st) = Inl UpstreamRejected
        \<and> snd (sendTurn up mdl prior sessionId c img now st)
            = persist sessionId ''user'' c img now st)
   \<and> (fst (sendTurn up mdl prior sessionId c img now st) = Inr result
    \<longrightarrow> (\<exists>outgoing' response' first_choice rest.
           assembled_messages prior sessionId c img st = Inr outgoing'
           \<and> up mdl outgoing' = Inr response'
           \<and> choices response' = first_choice # rest
           \<and> reply_text result = reply_content (choice_message first_choice)))
   \<and> (chat_post up request srv = (Inr http_response, srv')
    \<longrightarrow> choices http_response \<noteq> [])"
proof (intro conjI impI)
  assume "assembled_messages prior sessionId c img st = Inr outgoing
      \<and> up mdl outgoing = Inr response \<and> choices response = []"
  then show "fst (sendTurn up mdl prior sessionId c img now st) = Inl UpstreamRejected"
    and "snd (sendTurn up mdl prior sessionId c img now st)
            = persist sessionId ''user'' c img now st"
    by (simp_all add: sendTurn_by_assembled)
next
  assume "fst (sendTurn up mdl prior sessionId c img now st) = Inr result"
  then show "\<exists>outgoing' response' first_choice rest.
           assembled_messages prior sessionId c img st = Inr outgoing'
           \<and> up mdl outgoing' = Inr response'
           \<and> choices response' = first_choice # rest
           \<and> reply_text result = reply_content (choice_message first_choice)"
    by (auto simp: sendTurn_by_assembled split: sum.splits list.splits)
next
  assume "chat_post up request srv = (Inr http_response, srv')"
  then show "choices http_response \<noteq> []"
    by (auto simp: chat_post_def Let_def split: if_splits prod.splits sum.splits)
qed

theorem empty_choices_rejected_witness:
  "assembled_messages [] (Some ''0'') ''hi'' None one_session_store = Inr [user_turn ''hi'' None]
   \<and> empty_choices_upstream ''m1'' [user_turn ''hi'' None]
       = Inr \<lparr>resp_id = ''gen-4'', resp_model = ''m1'', choices = [], resp_usage = None\<rparr>
   \<and> fst (sendTurn empty_choices_upstream ''m1'' [] (Some ''0'') ''hi'' None 7 one_session_store)
       = Inl UpstreamRejected
   \<and> map (\<lambda>m. (msg_role m, msg_content m))
       (stored_messages (snd (sendTurn empty_choices_upstream ''m1'' [] (Some ''0'') ''hi'' None 7
          one_session_store)))
     = [(''user'', ''hi'')]
   \<and> fst (sendTurn one_choice_upstream ''m1'' [] (Some ''0'') ''hi'' None 7 one_session_store)
       = Inr \<lparr>reply_text = ''hello'', model_used = ''m1'', token_usage = None\<rparr>
   \<and> fst (chat_post one_choice_upstream
             \<lparr>req_model = ''m1'', req_messages = [user_turn ''hi'' None], session_id = None\<rparr>
             \<lparr>srv_store = one_session_store, srv_clock = 7\<rparr>)
       = Inr \<lparr>resp_id = ''7'', resp_model = ''m1'',
              choices = [\<lparr>choice_message =
                            \<lparr>reply_role = ''assistant'', reply_content = ''hello''\<rparr>,
                          finish_reason = ''stop''\<rparr>],
              resp_usage = None\<rparr>
   \<and> fst (chat_post empty_choices_upstream
             \<lparr>req_model = ''m1'', req_messages = [user_turn ''hi'' None], session_id = None\<rparr>
             \<lparr>srv_store = one_session_store, srv_clock = 7\<rparr>)
       = Inl (http_error UpstreamRejected)"
proof -
  have store: "one_session_store =
      \<lparr>chat_sessions = [\<lparr>ses_id = ''0'', ses_title = ''Chat 1'', ses_model_id = ''m1'',
                          ses_created_at = 0, ses_updated_at = 0\<rparr>],
       stored_messages = [], next_id = 1\<rparr>"
    by (simp add: one_session_store_def perform_all_def empty_store_def
          store_createSession_def show_nat_digit Let_def)
  have a: "assembled_messages [] (Some ''0'') ''hi'' None one_session_store
             = Inr [user_turn ''hi'' None]"
    by (simp add: store assembled_messages_def store_getSession_def)
  have u: "empty_choices_upstream ''m1'' [user_turn ''hi'' None]
             = Inr \<lparr>resp_id = ''gen-4'', resp_model = ''m1'', choices = [], resp_usage = None\<rparr>"
    by (simp add: empty_choices_upstream_def)
  have p: "map (\<lambda>m. (msg_role m, msg_content m))
             (stored_messages (persist (Some ''0'') ''user'' ''hi'' None 7 one_session_store))
           = [(''user'', ''hi'')]"
    by (simp add: store persist_def store_appendMessage_def session_exists_def Let_def)
  have ok: "fst (sendTurn one_choice_upstream ''m1'' [] (Some ''0'') ''hi'' None 7
                   one_session_store)
       = Inr \<lparr>reply_text = ''hello'', model_used = ''m1'', token_usage = None\<rparr>"
    by (simp add: sendTurn_by_assembled a one_choice_upstream_def)
  have answered: "chat_post one_choice_upstream
             \<lparr>req_model = ''m1'', req_messages = [user_turn ''hi'' None], session_id = None\<rparr>
             \<lparr>srv_store = one_session_store, srv_clock = 7\<rparr>
       = (Inr \<lparr>resp_id = ''7'', resp_model = ''m1'',
               choices = [\<lparr>choice_message =
                             \<lparr>reply_role = ''assistant'', reply_content = ''hello''\<rparr>,
                           finish_reason = ''stop''\<rparr>],
               resp_usage = None\<rparr>,
          \<lparr>srv_store = one_session_store, srv_clock = 8\<rparr>)"
    by (simp add: chat_post_def sendTurn_by_assembled assembled_messages_def persist_def
          one_choice_upstream_def user_turn_def turn_text_def turn_image_def show_nat_digit
          Let_def)
  have rejected: "fst (chat_post empty_choices_upstream
             \<lparr>req_model = ''m1'', req_messages = [user_turn ''hi'' None], session_id = None\<rparr>
             \<lparr>srv_store = one_session_store, srv_clock = 7\<rparr>)
       = Inl (http_error UpstreamRejected)"
    by (simp add: chat_post_def sendTurn_by_assembled assembled_messages_def
          empty_choices_upstream_def Let_def split: prod.splits)
  from empty_choices_rejected[where prior = "[]" and sessionId = "Some ''0''" and c = "''hi''"
      and img = None and st = one_session_store and outgoing = "[user_turn ''hi'' None]"
      and up = empty_choices_upstream and mdl = "''m1''"
      and response = "\<lparr>resp_id = ''gen-4'', resp_model = ''m1'', choices = [],
                        resp_usage = None\<rparr>"
      and now = 7]
    empty_choices_rejected[where prior = "[]" and sessionId = "Some ''0''" and c = "''hi''"
      and img = None and st = one_session_store
      and up = one_choice_upstream and mdl = "''m1''" and now = 7
      and result = "\<lparr>reply_text = ''hello'', model_used = ''m1'', token_usage = None\<rparr>"
      and request = "\<lparr>req_model = ''m1'', req_messages = [user_turn ''hi'' None],
                       session_id = None\<rparr>"
      and srv = "\<lparr>srv_store = one_session_store, srv_clock = 7\<rparr>"
      and http_response = "\<lparr>resp_id = ''7'', resp_model = ''m1'',
               choices = [\<lparr>choice_message =
                             \<lparr>reply_role = ''assistant'', reply_content = ''hello''\<rparr>,
                           finish_reason = ''stop''\<rparr>],
               resp_usage = None\<rparr>"
      and srv' = "\<lparr>srv_store = one_session_store, srv_clock = 8\<rparr>"]
    a u p ok answered rejected
  show ?thesis by simp
qed

section \<open>Round trip of a message through the store and the API boundary\<close>

lemma getSession_after_append:
  assumes "store_appendMessage sid r c img md now st = Inr (m, st')"
  shows "\<exists>s. store_getSession sid st' = Inr (s, session_messages sid st @ [m]) \<and> ses_id s = sid"
proof -
  note a = after_append[OF assms]
  from a(1)[of sid] a(4) have "session_exists sid st'" by simp
  then obtain s where f: "find (\<lambda>s. ses_id s = sid) (chat_sessions st') = Some s"
    using find_session_None[of sid st']
    by (cases "find (\<lambda>s. ses_id s = sid) (chat_sessions st')") auto
  have "filter (\<lambda>x. msg_session_id x = Some sid) (stored_messages st')
          = session_messages sid st @ [m]"
    by (simp add: a(3) session_messages_def) (simp add: a(5))
  with f find_session_Some[OF f] show ?thesis
    by (simp add: store_getSession_def)
qed

lemma transformed_session_messages:
  "ses_id s = sid \<Longrightarrow>
     messages (transformSession (session_json st s))
       = map (\<lambda>m. transformMessage (message_json m)) (session_messages sid st)"
  by (simp add: transformSession_def session_json_def session_messages_def comp_def)

text \<open>
  C8 (as the boundary has it). A message appended with an image reference is the last
  message that \<open>getSession\<close> retrieves for its session, and after serialisation and
  \<open>transformMessage\<close> or \<open>transformSession\<close> it carries the identical reference,
  with its role and content. For every server message and session, the client object
  has the storage names renamed to the client-facing names, and every value but the
  timestamps is the server's value; the values of \<open>timestamp\<close>, \<open>createdAt\<close> and
  \<open>updatedAt\<close> are the \<^verbatim>\<open>Date\<close> objects constructed from the server's strings.
\<close>

theorem image_reference_round_trip:
  "(store_appendMessage sid r c (Some ref) md now st = Inr (m, st') \<longrightarrow>
      (\<exists>s msgs. store_getSession sid st' = Inr (s, msgs)
         \<and> msgs \<noteq> [] \<and> last msgs = m
         \<and> imageUrl (transformMessage (message_json (last msgs))) = Some ref
         \<and> role (transformMessage (message_json (last msgs))) = r
         \<and> content (transformMessage (message_json (last msgs))) = c
         \<and> messages (transformSession (session_json st' s))
             = map (\<lambda>x. transformMessage (message_json x)) msgs
         \<and> imageUrl (last (messages (transformSession (session_json st' s)))) = Some ref))
   \<and> map fst (renamed (server_message_fields msg))
       = map fst (client_message_fields (transformMessage msg))
   \<and> map fst (renamed (server_session_fields session))
       = map fst (client_session_fields (transformSession session))
   \<and> without_timestamps (renamed (server_message_fields msg))
       = without_timestamps (client_message_fields (transformMessage msg))
   \<and> without_timestamps (renamed (server_session_fields session))
       = without_timestamps (client_session_fields (transformSession session))
   \<and> map_of (client_message_fields (transformMessage msg)) ''timestamp''
       = Some (JDate (DateOfString (sm_timestamp msg)))
   \<and> map_of (client_session_fields (transformSession session)) ''createdAt''
       = Some (JDate (DateOfString (created_at session)))
   \<and> map_of (client_session_fields (transformSession session)) ''updatedAt''
       = Some (JDate (DateOfString (updated_at session)))"
proof -
  have trip: "store_appendMessage sid r c (Some ref) md now st = Inr (m, st') \<longrightarrow>
      (\<exists>s msgs. store_getSession sid st' = Inr (s, msgs)
         \<and> msgs \<noteq> [] \<and> last msgs = m
         \<and> imageUrl (transformMessage (message_json (last msgs))) = Some ref
         \<and> role (transformMessage (message_json (last msgs))) = r
         \<and> content (transformMessage (message_json (last msgs))) = c
         \<and> messages (transformSession (session_json st' s))
             = map (\<lambda>x. transformMessage (message_json x)) msgs
         \<and> imageUrl (last (messages (transformSession (session_json st' s)))) = Some ref)"
  proof
    assume ap: "store_appendMessage sid r c (Some ref) md now st = Inr (m, st')"
    note a = after_append[OF ap]
    from getSession_after_append[OF ap] obtain s
      where g: "store_getSession sid st' = Inr (s, session_messages sid st @ [m])"
        and s: "ses_id s = sid"
      by blast
    have sm: "session_messages sid st' = session_messages sid st @ [m]"
      by (simp add: session_messages_def a(3)) (simp add: a(5))
    have fields: "imageUrl (transformMessage (message_json m)) = Some ref"
      "role (transformMessage (message_json m)) = r"
      "content (transformMessage (message_json m)) = c"
      by (simp_all add: a(5) transformMessage_def message_json_def)
    have all: "messages (transformSession (session_json st' s))
        = map (\<lambda>x. transformMessage (message_json x)) (session_messages sid st @ [m])"
      using transformed_session_messages[OF s, of st'] by (simp add: sm)
    from g fields all show "\<exists>s msgs. store_getSession sid st' = Inr (s, msgs)
         \<and> msgs \<noteq> [] \<and> last msgs = m
         \<and> imageUrl (transformMessage (message_json (last msgs))) = Some ref
         \<and> role (transformMessage (message_json (last msgs))) = r
         \<and> content (transformMessage (message_json (last msgs))) = c
         \<and> messages (transformSession (session_json st' s))
             = map (\<lambda>x. transformMessage (message_json x)) msgs
         \<and> imageUrl (last (messages (transformSession (session_json st' s)))) = Some ref"
      by (intro exI[of _ s] exI[of _ "session_messages sid st @ [m]"]) simp
  qed
  have rest: "map fst (renamed (server_message_fields msg))
       = map fst (client_message_fields (transformMessage msg))"
    "map fst (renamed (server_session_fields session))
       = map fst (client_session_fields (transformSession session))"
    "without_timestamps (renamed (server_message_fields msg))
       = without_timestamps (client_message_fields (transformMessage msg))"
    "without_timestamps (renamed (server_session_fields session))
       = without_timestamps (client_session_fields (transformSession session))"
    "map_of (client_message_fields (transformMessage msg)) ''timestamp''
       = Some (JDate (DateOfString (sm_timestamp msg)))"
    "map_of (client_session_fields (transformSession session)) ''createdAt''
       = Some (JDate (DateOfString (created_at session)))"
    "map_of (client_session_fields (transformSession session)) ''updatedAt''
       = Some (JDate (DateOfString (updated_at session)))"
    by (simp_all add: renamed_def without_timestamps_def timestamp_field_def client_name_def
          server_message_fields_def client_message_fields_def server_session_fields_def
          client_session_fields_def transformMessage_def transformSession_def)
  from trip rest show ?thesis by (intro conjI)
qed

theorem image_reference_round_trip_witness:
  "store_appendMessage ''0'' ''user'' ''What is in this image?''
       (Some ''data:image/png;base64,AAAA'') None 5 one_session_store
     = Inr (image_message, store_with_image)
   \<and> (\<exists>s msgs. store_getSession ''0'' store_with_image = Inr (s, msgs)
         \<and> imageUrl (last (messages (transformSession (session_json store_with_image s))))
             = Some ''data:image/png;base64,AAAA'')"
proof -
  have ap: "store_appendMessage ''0'' ''user'' ''What is in this image?''
       (Some ''data:image/png;base64,AAAA'') None 5 one_session_store
     = Inr (image_message, store_with_image)"
    by (simp add: one_session_store_def perform_all_def empty_store_def
          store_createSession_def store_appendMessage_def session_exists_def image_message_def
          store_with_image_def show_nat_digit Let_def)
  from image_reference_round_trip[where sid = "''0''" and r = "''user''"
      and c = "''What is in this image?''" and ref = "''data:image/png;base64,AAAA''"
      and md = None and now = 5 and st = one_session_store and m = image_message
      and st' = store_with_image and msg = sample_server_message
      and session = "session_json store_with_image (hd (chat_sessions store_with_image))"] ap
  show ?thesis by blast
qed

text \<open>
  The sample message of the server after \<open>transformMessage\<close>: the value of its
  \<open>timestamp\<close> is a \<^verbatim>\<open>Date\<close> object where the server sent a string, so the client
  object is not the server's object with the fields renamed; the image reference is
  the server's.
\<close>

theorem timestamp_becomes_date_counterexample:
  "renamed (server_message_fields sample_server_message)
     \<noteq> client_message_fields (transformMessage sample_server_message)
   \<and> map_of (renamed (server_message_fields sample_server_message)) ''timestamp''
       = Some (JString ''2024-01-01T12:00:00'')
   \<and> map_of (client_message_fields (transformMessage sample_server_message)) ''timestamp''
       = Some (JDate (DateOfString ''2024-01-01T12:00:00''))
   \<and> js_typeof (JString ''2024-01-01T12:00:00'') = ''string''
   \<and> js_typeof (JDate (DateOfString ''2024-01-01T12:00:00'')) = ''object''
   \<and> map_of (renamed (server_message_fields sample_server_message)) ''imageUrl''
       = Some (JString ''data:image/png;base64,AAAA'')
   \<and> map_of (client_message_fields (transformMessage sample_server_message)) ''imageUrl''
       = Some (JString ''data:image/png;base64,AAAA'')"
  by (simp add: sample_server_message_def renamed_def client_name_def js_typeof_def
        optional_string_def server_message_fields_def client_message_fields_def
        transformMessage_def)

end
